theory Spec2Isabelle
  imports Complex_Main "HOL-Library.Multiset"
begin

section \<open>JavaScript numbers\<close>

text \<open>
  The quantities, ratios and thresholds of the ledger are JavaScript numbers: IEEE 754
  double-precision values, and every addition, subtraction, multiplication and
  division rounds its exact result to the nearest double, ties to the even
  significand. A finite number is represented by the rational it stands for. The two
  zeros are one value: their sign shows only in a division by zero, and the one
  division of the modelled code (the comparator of the dashboard) has a divisor that
  was tested to be greater than 0. A value that is \<^verbatim>\<open>number | undefined\<close> is a
  \<open>number option\<close>.
\<close>

datatype number = Fin rat | PInf | MInf | NaN

text \<open>\<open>2\<^sup>k\<close> for an integer \<open>k\<close>.\<close>

definition pow2 :: "int \<Rightarrow> rat" where
  "pow2 k = (if 0 \<le> k then 2 ^ nat k else 1 / 2 ^ nat (- k))"

text \<open>The number of binary digits of a positive integer.\<close>

function bit_length :: "int \<Rightarrow> int" where
  "bit_length n = (if n \<le> 0 then 0 else 1 + bit_length (n div 2))"
  by pat_completeness auto
termination
  by (relation "measure nat") auto

declare bit_length.simps [simp del]

text \<open>The binary exponent of a positive rational: \<open>2\<^sup>e \<le> x < 2\<^sup>e\<^sup>+\<^sup>1\<close>.\<close>

definition ilog2 :: "rat \<Rightarrow> int" where
  "ilog2 x = (if 1 \<le> x then bit_length \<lfloor>x\<rfloor> - 1 else - bit_length (\<lceil>1 / x\<rceil> - 1))"

text \<open>Rounding to the nearest integer, a tie going to the even one.\<close>

definition round_half_even :: "rat \<Rightarrow> int" where
  "round_half_even t =
     (let f = \<lfloor>t\<rfloor>; d = t - of_int f
      in if d < 1 / 2 then f else if 1 / 2 < d then f + 1 else if even f then f else f + 1)"

text \<open>
  A double has a significand of 53 bits, so a positive rational with binary exponent
  \<open>e\<close> is rounded to a multiple of \<open>2\<^sup>e\<^sup>-\<^sup>5\<^sup>2\<close>; below the smallest normal number the
  spacing stays at \<open>2\<^sup>-\<^sup>1\<^sup>0\<^sup>7\<^sup>4\<close> (subnormal numbers).
\<close>

definition ulp_exponent :: "rat \<Rightarrow> int" where
  "ulp_exponent a = max (ilog2 a - 52) (- 1074)"

definition significand :: "rat \<Rightarrow> int" where
  "significand a = round_half_even (a / pow2 (ulp_exponent a))"

text \<open>
  Rounding an exact result to a number. The result overflows to an infinity when the
  rounded magnitude reaches \<open>2\<^sup>1\<^sup>0\<^sup>2\<^sup>4\<close>, that is when the spacing exceeds \<open>2\<^sup>9\<^sup>7\<^sup>1\<close> or is
  \<open>2\<^sup>9\<^sup>7\<^sup>1\<close> with the significand rounded up to \<open>2\<^sup>5\<^sup>3\<close>.
\<close>

definition fl :: "rat \<Rightarrow> number" where
  "fl x = (if x = 0 then Fin 0
           else let p = ulp_exponent \<bar>x\<bar>; m = significand \<bar>x\<bar>
                in if 971 < p \<or> (p = 971 \<and> 2 ^ 53 \<le> m)
                   then (if 0 < x then PInf else MInf)
                   else Fin (if 0 < x then of_int m * pow2 p else - (of_int m * pow2 p)))"

text \<open>The values a number can take: a finite value is a double exactly when rounding
  leaves it as it is.\<close>

definition is_double :: "number \<Rightarrow> bool" where
  "is_double n = (case n of Fin x \<Rightarrow> fl x = Fin x | _ \<Rightarrow> True)"

definition is_finite :: "number \<Rightarrow> bool" where
  "is_finite n = (case n of Fin x \<Rightarrow> True | _ \<Rightarrow> False)"

text \<open>The rational a finite number stands for.\<close>

definition exact :: "number \<Rightarrow> rat" where
  "exact n = (case n of Fin x \<Rightarrow> x | _ \<Rightarrow> 0)"

text \<open>\<^verbatim>\<open>a < b\<close>: false as soon as an operand is \<^verbatim>\<open>NaN\<close>.\<close>

fun js_less :: "number \<Rightarrow> number \<Rightarrow> bool" where
  "js_less NaN b = False"
| "js_less a NaN = False"
| "js_less (Fin x) (Fin y) = (x < y)"
| "js_less (Fin x) PInf = True"
| "js_less (Fin x) MInf = False"
| "js_less MInf MInf = False"
| "js_less MInf b = True"
| "js_less PInf b = False"

text \<open>\<^verbatim>\<open>a > b\<close> and \<^verbatim>\<open>a <= b\<close>.\<close>

definition js_gt :: "number \<Rightarrow> number \<Rightarrow> bool" where
  "js_gt a b = js_less b a"

definition js_le :: "number \<Rightarrow> number \<Rightarrow> bool" where
  "js_le a b = (a \<noteq> NaN \<and> b \<noteq> NaN \<and> \<not> js_less b a)"

text \<open>\<^verbatim>\<open>-a\<close>, \<^verbatim>\<open>a + b\<close>, \<^verbatim>\<open>a - b\<close>, \<^verbatim>\<open>a * b\<close> and \<^verbatim>\<open>a / b\<close>.\<close>

fun js_neg :: "number \<Rightarrow> number" where
  "js_neg (Fin x) = Fin (- x)"
| "js_neg PInf = MInf"
| "js_neg MInf = PInf"
| "js_neg NaN = NaN"

fun js_add :: "number \<Rightarrow> number \<Rightarrow> number" where
  "js_add NaN b = NaN"
| "js_add a NaN = NaN"
| "js_add (Fin x) (Fin y) = fl (x + y)"
| "js_add PInf MInf = NaN"
| "js_add MInf PInf = NaN"
| "js_add PInf b = PInf"
| "js_add MInf b = MInf"
| "js_add (Fin x) b = b"

definition js_sub :: "number \<Rightarrow> number \<Rightarrow> number" where
  "js_sub a b = js_add a (js_neg b)"

fun js_mul :: "number \<Rightarrow> number \<Rightarrow> number" where
  "js_mul NaN b = NaN"
| "js_mul a NaN = NaN"
| "js_mul (Fin x) (Fin y) = fl (x * y)"
| "js_mul (Fin x) b = (if x = 0 then NaN else if 0 < x then b else js_neg b)"
| "js_mul a (Fin y) = (if y = 0 then NaN else if 0 < y then a else js_neg a)"
| "js_mul PInf b = b"
| "js_mul MInf b = js_neg b"

fun js_div :: "number \<Rightarrow> number \<Rightarrow> number" where
  "js_div NaN b = NaN"
| "js_div a NaN = NaN"
| "js_div (Fin x) (Fin y) =
     (if y = 0 then (if x = 0 then NaN else if 0 < x then PInf else MInf) else fl (x / y))"
| "js_div (Fin x) b = Fin 0"
| "js_div a (Fin y) = (if 0 \<le> y then a else js_neg a)"
| "js_div a b = NaN"

text \<open>Truthiness of a number: \<open>0\<close> and \<^verbatim>\<open>NaN\<close> are falsy. \<^verbatim>\<open>x || d\<close> on numbers.\<close>

definition js_truthy :: "number \<Rightarrow> bool" where
  "js_truthy n = (n \<noteq> Fin 0 \<and> n \<noteq> NaN)"

definition js_or :: "number \<Rightarrow> number \<Rightarrow> number" where
  "js_or x d = (if js_truthy x then x else d)"

section \<open>Data model\<close>

text \<open>
  The inventory ledger of the repository lives in two React components: the dashboard
  (\<^verbatim>\<open>src/unnamed/part_000\<close>) and the transaction manager
  (\<^verbatim>\<open>src/unnamed/part_001\<close>). The type declarations they import from
  \<^verbatim>\<open>../types\<close> are not part of the sources at hand, so the records below list
  the fields in the way the two components read and write them.
\<close>

record UnitDefinition =
  unit_name :: string
  ratio :: number

record InventoryItem =
  item_id :: string
  sku :: string
  item_name :: string
  category :: string
  quantity :: number
  baseUnit :: string
  alternativeUnits :: "UnitDefinition list option"
  minLevel :: number
  unitPrice :: number

datatype TransactionType = IN | OUT

record TransactionItemDetail =
  itemId :: string
  itemName :: string
  quantityInput :: number
  selectedUnit :: string
  conversionRatio :: number
  totalBaseQuantity :: number

record Transaction =
  tx_id :: string
  date :: string
  tx_type :: TransactionType
  items :: "TransactionItemDetail list"
  tx_notes :: "string option"
  timestamp :: string
  supplierName :: "string option"
  poNumber :: "string option"
  riNumber :: "string option"
  photos :: "string list option"

section \<open>Dashboard (part\_000)\<close>

text \<open>
  \<^verbatim>\<open>Array.prototype.sort(compareFn)\<close> is a stable sort: \<open>a\<close> is placed after \<open>b\<close>
  when \<open>compareFn(a, b) > 0\<close>, and elements that do not compare greater (the
  comparator returns a negative number, \<open>0\<close> or \<^verbatim>\<open>NaN\<close>) keep the order they
  had. For a comparator that is consistent on the elements at hand, every stable sort
  yields the list that the stable insertion sort yields, which is the model; for an
  inconsistent one the language leaves the order to the implementation.
\<close>

fun insert_by :: "('a \<Rightarrow> 'a \<Rightarrow> number) \<Rightarrow> 'a \<Rightarrow> 'a list \<Rightarrow> 'a list" where
  "insert_by cmp x [] = [x]"
| "insert_by cmp x (y # ys) =
     (if js_gt (cmp x y) (Fin 0) then y # insert_by cmp x ys else x # y # ys)"

definition array_sort :: "('a \<Rightarrow> 'a \<Rightarrow> number) \<Rightarrow> 'a list \<Rightarrow> 'a list" where
  "array_sort cmp xs = foldr (insert_by cmp) xs []"

text \<open>The predicate both \<^verbatim>\<open>stats\<close> and \<^verbatim>\<open>lowStockItems\<close> filter with:
  \<^verbatim>\<open>i => i.minLevel > 0 && i.quantity <= i.minLevel\<close>.\<close>

definition isLowStock :: "InventoryItem \<Rightarrow> bool" where
  "isLowStock i = (js_gt (minLevel i) (Fin 0) \<and> js_le (quantity i) (minLevel i))"

text \<open>\<^verbatim>\<open>stats.lowStockCount\<close> (part\_000, line 45).\<close>

definition lowStockCount :: "InventoryItem list \<Rightarrow> nat" where
  "lowStockCount its =
     length (filter (\<lambda>i. js_gt (minLevel i) (Fin 0) \<and> js_le (quantity i) (minLevel i)) its)"

text \<open>The comparator of line 54:
  \<^verbatim>\<open>(a, b) => (a.quantity / a.minLevel) - (b.quantity / b.minLevel)\<close>.\<close>

definition lowStockCompare :: "InventoryItem \<Rightarrow> InventoryItem \<Rightarrow> number" where
  "lowStockCompare a b =
     js_sub (js_div (quantity a) (minLevel a)) (js_div (quantity b) (minLevel b))"

text \<open>\<^verbatim>\<open>lowStockItems\<close> (part\_000, lines 52-55). The in-place sort works on the
  fresh array that \<^verbatim>\<open>filter\<close> returns, so \<^verbatim>\<open>items\<close> itself is only read.\<close>

definition lowStockItems :: "InventoryItem list \<Rightarrow> InventoryItem list" where
  "lowStockItems its =
     array_sort lowStockCompare
       (filter (\<lambda>i. js_gt (minLevel i) (Fin 0) \<and> js_le (quantity i) (minLevel i)) its)"

text \<open>The criticality of an item, the number the comparator computes for it:
  \<^verbatim>\<open>quantity / minLevel\<close>, rounded.\<close>

definition criticality :: "InventoryItem \<Rightarrow> number" where
  "criticality i = js_div (quantity i) (minLevel i)"

section \<open>Transaction manager (part\_001)\<close>

subsection \<open>Component state\<close>

text \<open>
  The component keeps its state in \<^verbatim>\<open>useState\<close> cells; the record has one field
  per cell that the modelled handlers read or write (a cell whose name is already a
  field of a line or of a transaction carries the prefix \<open>form_\<close>). Two fields stand
  for the component's surroundings: \<open>inventory\<close> is the \<^verbatim>\<open>inventory\<close> prop, the
  catalog as the parent holds it, and \<open>calls\<close> logs the invocations of the parent's
  callbacks \<^verbatim>\<open>onProcessTransaction\<close>, \<^verbatim>\<open>onUpdateTransaction\<close> and
  \<^verbatim>\<open>onDeleteTransaction\<close>, the only way the component can reach the catalog or the
  transaction history.

  The cell \<open>validationError\<close> is recomputed for display by an effect (lines 93-109);
  the handlers below only clear it and do not read it, and the effect is not modelled.
\<close>

datatype parent_call =
  OnProcessTransaction Transaction
| OnUpdateTransaction Transaction
| OnDeleteTransaction string

datatype target = New | Edit

record manager_state =
  inventory :: "InventoryItem list"
  calls :: "parent_call list"
  form_date :: string
  form_type :: TransactionType
  form_notes :: string
  cartItems :: "TransactionItemDetail list"
  form_supplierName :: string
  form_poNumber :: string
  form_riNumber :: string
  form_photos :: "string list"
  searchQuery :: string
  selectedItem :: "InventoryItem option"
  form_selectedUnit :: string
  form_conversionRatio :: number
  form_quantityInput :: "number option"
  isAutocompleteOpen :: bool
  activeIndex :: int
  validationError :: "string option"
  isEditModalOpen :: bool
  editingTransaction :: "Transaction option"
  editDate :: string
  editType :: TransactionType
  editNotes :: string
  editCartItems :: "TransactionItemDetail list"
  editSupplierName :: string
  editPoNumber :: string
  editRiNumber :: string
  editPhotos :: "string list"

text \<open>
  The handlers signal failure by returning early, silently or after an
  \<^verbatim>\<open>alert\<close>, and leave every state cell as it was. Each early return is a
  constructor of \<open>failure\<close>, named after the error of the ledger's taxonomy it stands
  for; a handler that fails returns \<open>Inl\<close> of it and no new state.
  \<^item> \<open>NoItemSelected\<close>, \<open>InvalidQuantity\<close>: the two disjuncts of the guard
    \<^verbatim>\<open>if (!selectedItem || !quantityInput) return;\<close> (line 177);
  \<^item> \<open>InsufficientStock\<close>: the \<^verbatim>\<open>alert(...); return;\<close> of lines 186-189;
  \<^item> \<open>EmptyTransaction\<close>: \<^verbatim>\<open>if (cartItems.length === 0) return;\<close> (line 262);
  \<^item> \<open>NoTransactionOpen\<close>: \<^verbatim>\<open>if (!editingTransaction) return;\<close> (line 289);
  \<^item> \<open>TypeError\<close>: the exception of reading a field of \<^verbatim>\<open>undefined\<close>.
\<close>

datatype failure =
  NoItemSelected
| InvalidQuantity
| InsufficientStock
| EmptyTransaction
| NoTransactionOpen
| TypeError

text \<open>The initial values of the \<^verbatim>\<open>useState\<close> cells (lines 34-71); the date of the
  day and the inventory prop are parameters.\<close>

definition initialState :: "string \<Rightarrow> InventoryItem list \<Rightarrow> manager_state" where
  "initialState today catalog =
     \<lparr> inventory = catalog, calls = [],
       form_date = today, form_type = IN, form_notes = '''', cartItems = [],
       form_supplierName = '''', form_poNumber = '''', form_riNumber = '''', form_photos = [],
       searchQuery = '''', selectedItem = None, form_selectedUnit = '''',
       form_conversionRatio = Fin 1, form_quantityInput = None, isAutocompleteOpen = False,
       activeIndex = 0, validationError = None,
       isEditModalOpen = False, editingTransaction = None, editDate = '''', editType = IN,
       editNotes = '''', editCartItems = [], editSupplierName = '''', editPoNumber = '''',
       editRiNumber = '''', editPhotos = [] \<rparr>"

text \<open>The IN/OUT buttons of the new-transaction form (lines 476 and 482).\<close>

definition setType :: "TransactionType \<Rightarrow> manager_state \<Rightarrow> manager_state" where
  "setType t st = st\<lparr>form_type := t, validationError := None\<rparr>"

text \<open>The quantity field (line 380): an empty field is \<^verbatim>\<open>undefined\<close>.\<close>

definition setQuantityInput :: "number option \<Rightarrow> manager_state \<Rightarrow> manager_state" where
  "setQuantityInput v st = st\<lparr>form_quantityInput := v\<rparr>"

subsection \<open>Selecting an item and a unit\<close>

text \<open>\<^verbatim>\<open>handleSelectItem\<close> (lines 150-163).\<close>

definition handleSelectItem :: "InventoryItem \<Rightarrow> manager_state \<Rightarrow> manager_state" where
  "handleSelectItem item st =
     st\<lparr>selectedItem := Some item,
        searchQuery := item_name item,
        form_selectedUnit := baseUnit item,
        form_conversionRatio := Fin 1,
        isAutocompleteOpen := False,
        validationError := None,
        activeIndex := - 1\<rparr>"

text \<open>\<^verbatim>\<open>selectedItem.alternativeUnits?.find(u => u.name === unitName)\<close> (line 171).\<close>

definition findAlternativeUnit :: "InventoryItem \<Rightarrow> string \<Rightarrow> UnitDefinition option" where
  "findAlternativeUnit item unitName =
     (case alternativeUnits item of
        None \<Rightarrow> None
      | Some us \<Rightarrow> find (\<lambda>u. unit_name u = unitName) us)"

text \<open>The ratio that lines 168-173 store: \<open>1\<close> for the base unit, otherwise
  \<^verbatim>\<open>alt?.ratio || 1\<close>.\<close>

definition resolveRatio :: "InventoryItem \<Rightarrow> string \<Rightarrow> number" where
  "resolveRatio item unitName =
     (if unitName = baseUnit item then Fin 1
      else (case findAlternativeUnit item unitName of
              None \<Rightarrow> Fin 1
            | Some alt \<Rightarrow> js_or (ratio alt) (Fin 1)))"

text \<open>\<^verbatim>\<open>handleUnitSelect\<close> (lines 165-174).\<close>

definition handleUnitSelect :: "string \<Rightarrow> manager_state \<Rightarrow> manager_state" where
  "handleUnitSelect unitName st =
     (case selectedItem st of
        None \<Rightarrow> st
      | Some item \<Rightarrow>
          st\<lparr>form_selectedUnit := unitName,
             form_conversionRatio := resolveRatio item unitName\<rparr>)"

text \<open>The options of the unit \<^verbatim>\<open><select>\<close> (lines 362-366), the only unit names
  the form can hand to \<^verbatim>\<open>handleUnitSelect\<close>: the base unit, then the alternative
  units.\<close>

definition unitOptions :: "InventoryItem \<Rightarrow> string list" where
  "unitOptions item =
     baseUnit item # (case alternativeUnits item of None \<Rightarrow> [] | Some us \<Rightarrow> map unit_name us)"

subsection \<open>The carts\<close>

text \<open>The sum of lines 182-184 (and 95-97):
  \<^verbatim>\<open>cart.filter(it => it.itemId === id).reduce((sum, current) => sum + current.totalBaseQuantity, 0)\<close>.\<close>

definition alreadyInCart :: "TransactionItemDetail list \<Rightarrow> string \<Rightarrow> number" where
  "alreadyInCart cart ident =
     foldl (\<lambda>sum current. js_add sum (totalBaseQuantity current)) (Fin 0)
       (filter (\<lambda>it. itemId it = ident) cart)"

text \<open>\<^verbatim>\<open>(targetCart === 'new' ? cartItems : editCartItems)\<close> (line 182).\<close>

definition targetCartItems :: "target \<Rightarrow> manager_state \<Rightarrow> TransactionItemDetail list" where
  "targetCartItems targetCart st = (if targetCart = New then cartItems st else editCartItems st)"

text \<open>\<^verbatim>\<open>handleAddToCart\<close> (lines 176-214).\<close>

definition handleAddToCart :: "target \<Rightarrow> manager_state \<Rightarrow> failure + manager_state" where
  "handleAddToCart targetCart st =
     (case selectedItem st of
        None \<Rightarrow> Inl NoItemSelected
      | Some item \<Rightarrow>
         (case form_quantityInput st of
            None \<Rightarrow> Inl InvalidQuantity
          | Some q \<Rightarrow>
             if \<not> js_truthy q then Inl InvalidQuantity
             else
               let calculatedBase = js_mul q (form_conversionRatio st) in
               if form_type st = OUT
                  \<and> js_gt (js_add (alreadyInCart (targetCartItems targetCart st) (item_id item))
                              calculatedBase)
                       (quantity item)
               then Inl InsufficientStock
               else
                 let newItem = \<lparr> itemId = item_id item, itemName = item_name item,
                                 quantityInput = q, selectedUnit = form_selectedUnit st,
                                 conversionRatio = form_conversionRatio st,
                                 totalBaseQuantity = calculatedBase \<rparr>;
                     st1 = (if targetCart = New
                            then st\<lparr>cartItems := cartItems st @ [newItem]\<rparr>
                            else st\<lparr>editCartItems := editCartItems st @ [newItem]\<rparr>)
                 in Inr (st1\<lparr>selectedItem := None, searchQuery := '''',
                              form_quantityInput := None, validationError := None\<rparr>)))"

text \<open>
  Adding a line is the sequence of the form: pick the item, pick the unit, type the
  quantity (\<open>formFilled\<close>), then press "Add to Cart".
\<close>

definition formFilled :: "InventoryItem \<Rightarrow> string \<Rightarrow> number option \<Rightarrow> manager_state \<Rightarrow> manager_state" where
  "formFilled item unitName q st =
     setQuantityInput q (handleUnitSelect unitName (handleSelectItem item st))"

definition addLine ::
  "target \<Rightarrow> InventoryItem \<Rightarrow> string \<Rightarrow> number option \<Rightarrow> manager_state \<Rightarrow> failure + manager_state" where
  "addLine targetCart item unitName q st = handleAddToCart targetCart (formFilled item unitName q st)"

text \<open>The line that \<open>addLine\<close> builds (the object literal of lines 192-199, with the
  unit and the ratio that the selection stored).\<close>

definition newLine :: "InventoryItem \<Rightarrow> string \<Rightarrow> number \<Rightarrow> TransactionItemDetail" where
  "newLine item u q =
     \<lparr> itemId = item_id item, itemName = item_name item, quantityInput = q,
       selectedUnit = u, conversionRatio = resolveRatio item u,
       totalBaseQuantity = js_mul q (resolveRatio item u) \<rparr>"

text \<open>\<^verbatim>\<open>xs.filter((_, idx) => idx !== i)\<close>, the removal of the cart's bin buttons.\<close>

definition filterIndexNot :: "nat \<Rightarrow> 'a list \<Rightarrow> 'a list" where
  "filterIndexNot i xs = map snd (filter (\<lambda>(idx, _). idx \<noteq> i) (enumerate 0 xs))"

text \<open>The bin button of a line of the new cart (line 545).\<close>

definition removeCartItem :: "nat \<Rightarrow> manager_state \<Rightarrow> manager_state" where
  "removeCartItem i st = st\<lparr>cartItems := filterIndexNot i (cartItems st)\<rparr>"

text \<open>The bin button of a line of the edit cart (line 678).\<close>

definition removeEditCartItem :: "nat \<Rightarrow> manager_state \<Rightarrow> manager_state" where
  "removeEditCartItem i st = st\<lparr>editCartItems := filterIndexNot i (editCartItems st)\<rparr>"

subsection \<open>Submitting and editing\<close>

text \<open>\<^verbatim>\<open>handleSubmitTransaction\<close> (lines 261-269); the results of
  \<^verbatim>\<open>generateId()\<close> and of \<^verbatim>\<open>new Date().toISOString()\<close> are parameters.\<close>

definition handleSubmitTransaction ::
  "string \<Rightarrow> string \<Rightarrow> manager_state \<Rightarrow> failure + manager_state" where
  "handleSubmitTransaction newId now st =
     (if length (cartItems st) = 0 then Inl EmptyTransaction
      else
        let tx = \<lparr> tx_id = newId, date = form_date st, tx_type = form_type st,
                   items = cartItems st, tx_notes = Some (form_notes st), timestamp = now,
                   supplierName = (if form_type st = IN then Some (form_supplierName st) else None),
                   poNumber = (if form_type st = IN then Some (form_poNumber st) else None),
                   riNumber = (if form_type st = IN then Some (form_riNumber st) else None),
                   photos = (if form_type st = IN then Some (form_photos st) else None) \<rparr>
        in Inr (st\<lparr>calls := calls st @ [OnProcessTransaction tx],
                   cartItems := [], form_notes := '''', form_photos := [],
                   form_supplierName := '''', form_poNumber := '''', form_riNumber := ''''\<rparr>))"

text \<open>\<^verbatim>\<open>s || ''\<close> and \<^verbatim>\<open>xs || []\<close> on optional fields.\<close>

definition or_empty :: "'a list option \<Rightarrow> 'a list" where
  "or_empty v = (case v of None \<Rightarrow> [] | Some xs \<Rightarrow> xs)"

text \<open>\<^verbatim>\<open>openEditModal\<close> (lines 271-280).\<close>

definition openEditModal :: "Transaction \<Rightarrow> manager_state \<Rightarrow> manager_state" where
  "openEditModal tx st =
     st\<lparr>editingTransaction := Some tx,
        editDate := date tx, editType := tx_type tx, editNotes := or_empty (tx_notes tx),
        editCartItems := items tx,
        editSupplierName := or_empty (supplierName tx),
        editPoNumber := or_empty (poNumber tx),
        editRiNumber := or_empty (riNumber tx),
        editPhotos := or_empty (photos tx),
        isEditModalOpen := True\<rparr>"

text \<open>\<^verbatim>\<open>updateEditItemQty\<close> (lines 282-286). Beyond the end of the cart,
  \<^verbatim>\<open>updated[index]\<close> is \<^verbatim>\<open>undefined\<close> and reading its
  \<^verbatim>\<open>conversionRatio\<close> throws before any state is set.\<close>

definition updateEditItemQty :: "nat \<Rightarrow> number \<Rightarrow> manager_state \<Rightarrow> failure + manager_state" where
  "updateEditItemQty index newQty st =
     (let updated = editCartItems st in
      if index < length updated
      then Inr (st\<lparr>editCartItems :=
                   updated[index := (updated ! index)
                     \<lparr>quantityInput := newQty,
                      totalBaseQuantity :=
                        js_mul newQty (js_or (conversionRatio (updated ! index)) (Fin 1))\<rparr>]\<rparr>)
      else Inl TypeError)"

text \<open>\<^verbatim>\<open>handleSaveEdit\<close> (lines 288-303).\<close>

definition handleSaveEdit :: "manager_state \<Rightarrow> failure + manager_state" where
  "handleSaveEdit st =
     (case editingTransaction st of
        None \<Rightarrow> Inl NoTransactionOpen
      | Some tx \<Rightarrow>
          let updatedTx = tx\<lparr>date := editDate st, tx_type := editType st,
                             items := editCartItems st, tx_notes := Some (editNotes st),
                             supplierName := Some (editSupplierName st),
                             poNumber := Some (editPoNumber st),
                             riNumber := Some (editRiNumber st),
                             photos := Some (editPhotos st)\<rparr>
          in Inr (st\<lparr>calls := calls st @ [OnUpdateTransaction updatedTx],
                     isEditModalOpen := False\<rparr>))"

text \<open>Running one handler after another: the second runs only if the first did not
  return early.\<close>

definition and_then ::
  "failure + manager_state \<Rightarrow> (manager_state \<Rightarrow> failure + manager_state) \<Rightarrow> failure + manager_state" where
  "and_then r h = (case r of Inl e \<Rightarrow> Inl e | Inr st \<Rightarrow> h st)"

text \<open>The state the component is in after a handler ran from \<open>st\<close>: the new state,
  or \<open>st\<close> itself when the handler returned early.\<close>

definition state_after :: "manager_state \<Rightarrow> failure + manager_state \<Rightarrow> manager_state" where
  "state_after st r = (case r of Inl e \<Rightarrow> st | Inr st' \<Rightarrow> st')"

text \<open>The state of the component once the whole sequence of adding a line has run.\<close>

definition afterAddLine ::
  "target \<Rightarrow> InventoryItem \<Rightarrow> string \<Rightarrow> number option \<Rightarrow> manager_state \<Rightarrow> manager_state" where
  "afterAddLine targetCart item unitName q st =
     state_after (formFilled item unitName q st) (addLine targetCart item unitName q st)"

text \<open>The parent re-renders the component with another \<^verbatim>\<open>inventory\<close> prop, for
  instance after the unit definitions of an item were edited in the inventory table.\<close>

definition setInventory :: "InventoryItem list \<Rightarrow> manager_state \<Rightarrow> manager_state" where
  "setInventory catalog st = st\<lparr>inventory := catalog\<rparr>"

subsection \<open>Numbers on the grid of the doubles\<close>

text \<open>
  Every finite double is a multiple of \<open>2\<^sup>-\<^sup>1\<^sup>0\<^sup>7\<^sup>4\<close>. The result of an arithmetic
  operation is either such a multiple, an infinity or \<^verbatim>\<open>NaN\<close>; \<open>ordinary\<close> holds of
  the results that are not \<^verbatim>\<open>NaN\<close>.
\<close>

definition on_grid :: "rat \<Rightarrow> bool" where
  "on_grid x = (of_int \<lfloor>x / pow2 (- 1074)\<rfloor> = x / pow2 (- 1074))"

definition ordinary :: "number \<Rightarrow> bool" where
  "ordinary n = (case n of Fin x \<Rightarrow> on_grid x | NaN \<Rightarrow> False | _ \<Rightarrow> True)"

subsection \<open>Sample data\<close>

text \<open>The item of the ledger's scenarios: 100 pieces on hand, a box holds 12.\<close>

definition scenarioItem :: InventoryItem where
  "scenarioItem =
     \<lparr> item_id = ''item-1'', sku = ''SKU-1'', item_name = ''Bolt'', category = ''Hardware'',
       quantity = Fin 100, baseUnit = ''Pcs'',
       alternativeUnits = Some [\<lparr> unit_name = ''Box'', ratio = Fin 12 \<rparr>],
       minLevel = Fin 10, unitPrice = Fin 1 \<rparr>"

text \<open>A second item, with no alternative units.\<close>

definition otherItem :: InventoryItem where
  "otherItem =
     \<lparr> item_id = ''item-2'', sku = ''SKU-2'', item_name = ''Nut'', category = ''Hardware'',
       quantity = Fin 100, baseUnit = ''Pcs'', alternativeUnits = None,
       minLevel = Fin 10, unitPrice = Fin 1 \<rparr>"

text \<open>An item kept by weight: \<^verbatim>\<open>0.7999999999999999\<close> kg on hand, a scoop holds 3 kg.\<close>

definition weighedItem :: InventoryItem where
  "weighedItem =
     \<lparr> item_id = ''item-3'', sku = ''SKU-3'', item_name = ''Flour'', category = ''Food'',
       quantity = fl (7999999999999999 / 10000000000000000), baseUnit = ''Kg'',
       alternativeUnits = Some [\<lparr> unit_name = ''Scoop'', ratio = Fin 3 \<rparr>],
       minLevel = Fin 0, unitPrice = Fin 1 \<rparr>"

text \<open>Two items at a third of their threshold: 1 of 3, and \<^verbatim>\<open>0.3333333333333333\<close>
  of 1.\<close>

definition thirdA :: InventoryItem where
  "thirdA = scenarioItem\<lparr>item_id := ''item-a'', quantity := Fin 1, minLevel := Fin 3\<rparr>"

definition thirdB :: InventoryItem where
  "thirdB = scenarioItem\<lparr>item_id := ''item-b'', quantity := fl (1 / 3), minLevel := Fin 1\<rparr>"

text \<open>A catalog of five items, three of them at or below their threshold.\<close>

definition sampleStock :: "InventoryItem list" where
  "sampleStock =
     [scenarioItem\<lparr>quantity := Fin 5\<rparr>, scenarioItem, thirdA,
      otherItem\<lparr>quantity := Fin 0, minLevel := Fin 0\<rparr>,
      scenarioItem\<lparr>quantity := Fin 2, minLevel := Fin 8\<rparr>]"

text \<open>A fresh form, and the same form switched to OUT.\<close>

definition inDraft :: manager_state where
  "inDraft = initialState ''2024-01-01'' [scenarioItem]"

definition outDraft :: manager_state where
  "outDraft = setType OUT inDraft"

text \<open>A committed outbound transaction of 8 boxes of the scenario item.\<close>

definition outTransaction :: Transaction where
  "outTransaction =
     \<lparr> tx_id = ''tx-1'', date = ''2024-01-01'', tx_type = OUT,
       items = [\<lparr> itemId = ''item-1'', itemName = ''Bolt'', quantityInput = Fin 8,
                  selectedUnit = ''Box'', conversionRatio = Fin 12,
                  totalBaseQuantity = Fin 96 \<rparr>],
       tx_notes = None, timestamp = ''2024-01-01T00:00:00.000Z'',
       supplierName = None, poNumber = None, riNumber = None, photos = None \<rparr>"

text \<open>A stored transaction with a line whose conversion ratio is 0.\<close>

definition zeroRatioTransaction :: Transaction where
  "zeroRatioTransaction =
     outTransaction\<lparr>tx_id := ''tx-2'',
       items := [\<lparr> itemId = ''item-1'', itemName = ''Bolt'', quantityInput = Fin 3,
                   selectedUnit = ''Box'', conversionRatio = Fin 0,
                   totalBaseQuantity = Fin 0 \<rparr>]\<rparr>"

text \<open>The catalog after the unit definitions of the item were edited: a box now holds 10.\<close>

definition changedItem :: InventoryItem where
  "changedItem =
     scenarioItem\<lparr>alternativeUnits := Some [\<lparr> unit_name = ''Box'', ratio = Fin 10 \<rparr>]\<rparr>"

text \<open>An OUT draft that holds a line of 5 boxes.\<close>

definition draftWithLine :: manager_state where
  "draftWithLine = afterAddLine New scenarioItem ''Box'' (Some (Fin 5)) outDraft"

text \<open>The same component with the edit modal opened on the committed transaction, after
  the catalog changed, and with one box of the changed item typed into the form.\<close>

definition changedSession :: manager_state where
  "changedSession =
     setQuantityInput (Some (Fin 1)) (handleUnitSelect ''Box'' (handleSelectItem changedItem
       (setInventory [changedItem] (openEditModal outTransaction draftWithLine))))"

text \<open>The item once the 96 pieces of the committed transaction have left: 4 on hand.\<close>

definition soldItem :: InventoryItem where
  "soldItem = scenarioItem\<lparr>quantity := Fin 4\<rparr>"

definition afterCommit :: manager_state where
  "afterCommit = initialState ''2024-01-02'' [soldItem]"

section \<open>Properties of the numbers\<close>

lemma pow2_powi: "pow2 k = 2 powi k"
  by (simp add: pow2_def power_int_def power_one_over inverse_eq_divide)

lemma pow2_pos: "0 < pow2 k"
  by (simp add: pow2_powi)

lemma pow2_add: "pow2 (a + b) = pow2 a * pow2 b"
  by (simp add: pow2_powi power_int_add)

lemma pow2_mono: "a \<le> b \<Longrightarrow> pow2 a \<le> pow2 b"
  by (simp add: pow2_powi power_int_increasing)

lemma bit_length_nonneg: "0 \<le> bit_length n"
  by (induction n rule: bit_length.induct) (subst bit_length.simps, simp)

lemma bit_length_pos: "0 < n \<Longrightarrow> 1 \<le> bit_length n"
  using bit_length_nonneg [of "n div 2"] by (subst bit_length.simps) simp

lemma bit_length_upper: "n < 2 ^ nat (bit_length n)"
proof (induction n rule: bit_length.induct)
  case (1 n)
  show ?case
  proof (cases "n \<le> 0")
    case True
    then show ?thesis by (subst bit_length.simps) simp
  next
    case False
    then have ih: "n div 2 < 2 ^ nat (bit_length (n div 2))" using 1 by simp
    have "nat (1 + bit_length (n div 2)) = Suc (nat (bit_length (n div 2)))"
      using bit_length_nonneg [of "n div 2"] by simp
    moreover have "n < 2 * 2 ^ nat (bit_length (n div 2))"
      using ih by linarith
    ultimately show ?thesis using False by (subst bit_length.simps) simp
  qed
qed

lemma bit_length_lower: "0 < n \<Longrightarrow> 2 ^ nat (bit_length n - 1) \<le> n"
proof (induction n rule: bit_length.induct)
  case (1 n)
  then have pos: "0 < n" by simp
  show ?case
  proof (cases "n = 1")
    case True
    then show ?thesis by (subst bit_length.simps, subst bit_length.simps) simp
  next
    case False
    then have h: "0 < n div 2" using pos by linarith
    then have ih: "2 ^ nat (bit_length (n div 2) - 1) \<le> n div 2" using 1 pos by simp
    have "nat (1 + bit_length (n div 2) - 1) = Suc (nat (bit_length (n div 2) - 1))"
      using bit_length_pos [OF h] by simp
    moreover have "2 * 2 ^ nat (bit_length (n div 2) - 1) \<le> n"
      using ih by linarith
    ultimately show ?thesis using pos by (subst bit_length.simps) simp
  qed
qed

text \<open>\<open>ilog2\<close> is the binary exponent.\<close>

lemma ilog2_lower: assumes "0 < x" shows "pow2 (ilog2 x) \<le> x"
proof (cases "1 \<le> x")
  case True
  then have f: "0 < \<lfloor>x\<rfloor>" by linarith
  have "(2::int) ^ nat (bit_length \<lfloor>x\<rfloor> - 1) \<le> \<lfloor>x\<rfloor>"
    by (rule bit_length_lower [OF f])
  then have "rat_of_int (2 ^ nat (bit_length \<lfloor>x\<rfloor> - 1)) \<le> of_int \<lfloor>x\<rfloor>"
    by (simp only: of_int_le_iff)
  also have "\<dots> \<le> x" by simp
  finally show ?thesis using True bit_length_pos [OF f] by (simp add: ilog2_def pow2_def)
next
  case False
  then have x1: "x < 1" by simp
  define n where "n = \<lceil>1 / x\<rceil> - 1"
  have "1 < 1 / x" using assms x1 by (simp add: field_simps)
  then have npos: "0 < n" unfolding n_def by linarith
  have "1 / x \<le> of_int \<lceil>1 / x\<rceil>" by simp
  also have "\<lceil>1 / x\<rceil> \<le> 2 ^ nat (bit_length n)"
    using bit_length_upper [of n] by (simp add: n_def)
  finally have "1 / x \<le> 2 ^ nat (bit_length n)" by simp
  then have "1 / 2 ^ nat (bit_length n) \<le> x"
    using assms by (simp add: field_simps)
  then show ?thesis
    using False bit_length_pos [OF npos] by (simp add: ilog2_def pow2_def n_def)
qed

lemma ilog2_upper: assumes "0 < x" shows "x < pow2 (ilog2 x + 1)"
proof (cases "1 \<le> x")
  case True
  then have f: "0 < \<lfloor>x\<rfloor>" by linarith
  have "\<lfloor>x\<rfloor> + 1 \<le> 2 ^ nat (bit_length \<lfloor>x\<rfloor>)"
    using bit_length_upper [of "\<lfloor>x\<rfloor>"] by linarith
  then have "rat_of_int (\<lfloor>x\<rfloor> + 1) \<le> of_int (2 ^ nat (bit_length \<lfloor>x\<rfloor>))"
    by (simp only: of_int_le_iff)
  moreover have "x < of_int (\<lfloor>x\<rfloor> + 1)" by linarith
  ultimately have "x < 2 ^ nat (bit_length \<lfloor>x\<rfloor>)" by simp
  then show ?thesis
    using True bit_length_nonneg [of "\<lfloor>x\<rfloor>"] by (simp add: ilog2_def pow2_def)
next
  case False
  then have x1: "x < 1" by simp
  define n where "n = \<lceil>1 / x\<rceil> - 1"
  have "1 < 1 / x" using assms x1 by (simp add: field_simps)
  then have npos: "0 < n" unfolding n_def by linarith
  have b: "1 \<le> bit_length n" by (rule bit_length_pos [OF npos])
  have "(2::int) ^ nat (bit_length n - 1) \<le> n"
    by (rule bit_length_lower [OF npos])
  then have "rat_of_int (2 ^ nat (bit_length n - 1)) \<le> of_int n"
    by (simp only: of_int_le_iff)
  then have "(2::rat) ^ nat (bit_length n - 1) \<le> of_int n"
    by simp
  moreover have "rat_of_int n < 1 / x" unfolding n_def by linarith
  ultimately have "2 ^ nat (bit_length n - 1) < 1 / x" by (rule le_less_trans)
  then have "x < 1 / 2 ^ nat (bit_length n - 1)"
    using assms by (simp add: field_simps)
  moreover have "pow2 (ilog2 x + 1) = 1 / 2 ^ nat (bit_length n - 1)"
  proof (cases "bit_length n = 1")
    case True
    then show ?thesis using False by (simp add: ilog2_def pow2_def n_def)
  next
    case F: False
    then have "1 < bit_length n" using b by simp
    then show ?thesis using False by (simp add: ilog2_def pow2_def n_def nat_diff_distrib)
  qed
  ultimately show ?thesis by simp
qed

lemma round_half_even_ge: "1 \<le> t \<Longrightarrow> 1 \<le> round_half_even t"
proof -
  assume "1 \<le> t"
  then have "1 \<le> \<lfloor>t\<rfloor>" by linarith
  then show ?thesis by (simp add: round_half_even_def Let_def)
qed

lemma round_half_even_nonneg: "0 \<le> t \<Longrightarrow> 0 \<le> round_half_even t"
proof -
  assume "0 \<le> t"
  then have "0 \<le> \<lfloor>t\<rfloor>" by linarith
  then show ?thesis by (simp add: round_half_even_def Let_def)
qed

text \<open>Rounding moves a value by at most half a unit.\<close>

lemma round_half_even_near: "\<bar>of_int (round_half_even t) - t\<bar> \<le> 1 / 2"
proof -
  have "of_int \<lfloor>t\<rfloor> \<le> t" "t < of_int \<lfloor>t\<rfloor> + 1" by linarith+
  then show ?thesis by (auto simp: round_half_even_def Let_def)
qed

text \<open>
  Rounding gives the doubles that the literals \<^verbatim>\<open>0.1\<close> and \<^verbatim>\<open>1/3\<close> denote and
  the product \<^verbatim>\<open>(2**53 - 1) * 3\<close> of the language; above \<open>2\<^sup>5\<^sup>3\<close> the odd
  integers are ties, which go to the even significand.
\<close>

lemma fl_samples:
  "fl (1 / 10) = Fin (3602879701896397 / 36028797018963968)"
  "fl (1 / 3) = Fin (6004799503160661 / 18014398509481984)"
  "fl (9007199254740991 * 3) = Fin 27021597764222972"
  "fl (9007199254740993) = Fin 9007199254740992"
  "fl (9007199254740995) = Fin 9007199254740996"
  "fl (- 5) = Fin (- 5)"
  by code_simp+

subsection \<open>The grid and the sign of a rounded difference\<close>

lemma on_grid_iff: "on_grid x = (\<exists>k::int. x = of_int k * pow2 (- 1074))"
proof
  assume "on_grid x"
  then have "x / pow2 (- 1074) = of_int \<lfloor>x / pow2 (- 1074)\<rfloor>"
    unfolding on_grid_def by (rule sym)
  then have "x = of_int \<lfloor>x / pow2 (- 1074)\<rfloor> * pow2 (- 1074)"
    using pow2_pos [of "- 1074"] by (simp add: field_simps)
  then show "\<exists>k::int. x = of_int k * pow2 (- 1074)" ..
next
  assume "\<exists>k::int. x = of_int k * pow2 (- 1074)"
  then obtain k :: int where "x = of_int k * pow2 (- 1074)" ..
  then have "x / pow2 (- 1074) = of_int k"
    using pow2_pos [of "- 1074"] by simp
  then show "on_grid x" by (simp add: on_grid_def)
qed

lemma on_grid_zero: "on_grid 0"
  by (simp add: on_grid_def)

lemma on_grid_minus: "on_grid x \<Longrightarrow> on_grid (- x)"
proof -
  assume "on_grid x"
  then obtain k :: int where "x = of_int k * pow2 (- 1074)" by (auto simp: on_grid_iff)
  then have "- x = of_int (- k) * pow2 (- 1074)" by simp
  then show ?thesis unfolding on_grid_iff ..
qed

lemma on_grid_add: "on_grid x \<Longrightarrow> on_grid y \<Longrightarrow> on_grid (x + y)"
proof -
  assume "on_grid x" and "on_grid y"
  then obtain k l :: int where "x = of_int k * pow2 (- 1074)" "y = of_int l * pow2 (- 1074)"
    by (auto simp: on_grid_iff)
  then have "x + y = of_int (k + l) * pow2 (- 1074)" by (simp add: algebra_simps)
  then show ?thesis unfolding on_grid_iff ..
qed

lemma on_grid_scaled: assumes "- 1074 \<le> p" shows "on_grid (of_int m * pow2 p)"
proof -
  have "pow2 p = pow2 (p + 1074) * pow2 (- 1074)"
    using pow2_add [of "p + 1074" "- 1074"] by simp
  also have "pow2 (p + 1074) = of_int (2 ^ nat (p + 1074))"
    using assms by (simp add: pow2_def)
  finally have "of_int m * pow2 p = of_int (m * 2 ^ nat (p + 1074)) * pow2 (- 1074)"
    by simp
  then show ?thesis unfolding on_grid_iff ..
qed

lemma on_grid_ge: assumes "on_grid x" and "0 < x" shows "pow2 (- 1074) \<le> x"
proof -
  obtain k :: int where e: "x = of_int k * pow2 (- 1074)"
    using assms(1) by (auto simp: on_grid_iff)
  have p: "0 < pow2 (- 1074)" by (rule pow2_pos)
  have "0 < rat_of_int k" using assms(2) p unfolding e by (simp add: zero_less_mult_iff)
  then have "1 \<le> rat_of_int k" by simp
  then have "1 * pow2 (- 1074) \<le> of_int k * pow2 (- 1074)"
    using p by (intro mult_right_mono) simp_all
  then show ?thesis unfolding e by simp
qed

lemma ulp_exponent_ge: "- 1074 \<le> ulp_exponent a"
  by (simp add: ulp_exponent_def)

lemma significand_pos: assumes "on_grid a" and "0 < a" shows "1 \<le> significand a"
proof -
  have p: "0 < pow2 (ulp_exponent a)" by (rule pow2_pos)
  have "pow2 (ulp_exponent a) \<le> a"
  proof (cases "ilog2 a - 52 \<le> - 1074")
    case True
    then have "ulp_exponent a = - 1074" by (simp add: ulp_exponent_def)
    then show ?thesis using on_grid_ge [OF assms] by simp
  next
    case False
    then have "ulp_exponent a = ilog2 a - 52" by (simp add: ulp_exponent_def)
    then have "pow2 (ulp_exponent a) \<le> pow2 (ilog2 a)" by (simp add: pow2_mono)
    then show ?thesis using ilog2_lower [OF assms(2)] by simp
  qed
  then have "1 \<le> a / pow2 (ulp_exponent a)" using p by (simp add: field_simps)
  then show ?thesis unfolding significand_def by (rule round_half_even_ge)
qed

lemma significand_nonneg: assumes "0 < a" shows "0 \<le> significand a"
proof -
  have "0 \<le> a / pow2 (ulp_exponent a)" using assms pow2_pos [of "ulp_exponent a"] by simp
  then show ?thesis unfolding significand_def by (rule round_half_even_nonneg)
qed

lemma round_half_even_le: "t \<le> of_int k \<Longrightarrow> round_half_even t \<le> k"
proof -
  assume a: "t \<le> of_int k"
  have n: "\<bar>of_int (round_half_even t) - t\<bar> \<le> 1 / 2" by (rule round_half_even_near)
  have "rat_of_int (round_half_even t) \<le> of_int k + 1 / 2" using a n by linarith
  then have "rat_of_int (round_half_even t) < of_int (k + 1)" by simp
  then have "round_half_even t < k + 1" by (simp only: of_int_less_iff)
  then show ?thesis by simp
qed

text \<open>The rounded significand has at most 53 bits, and the rounded value is within half
  a unit in the last place of the exact one.\<close>

lemma significand_le: assumes "0 < a" shows "significand a \<le> 2 ^ 53"
proof -
  have p: "0 < pow2 (ulp_exponent a)" by (rule pow2_pos)
  have "pow2 (ilog2 a + 1) = pow2 53 * pow2 (ilog2 a - 52)"
    using pow2_add [of 53 "ilog2 a - 52"] by (simp add: add.commute)
  also have "\<dots> \<le> pow2 53 * pow2 (ulp_exponent a)"
    using pow2_pos [of 53] by (intro mult_left_mono pow2_mono) (simp_all add: ulp_exponent_def)
  finally have "a \<le> pow2 53 * pow2 (ulp_exponent a)"
    using ilog2_upper [OF assms] by simp
  then have "a / pow2 (ulp_exponent a) \<le> pow2 53" using p by (simp add: field_simps)
  also have "pow2 53 = rat_of_int (2 ^ 53)" by (simp add: pow2_def)
  finally show ?thesis unfolding significand_def by (rule round_half_even_le)
qed

lemma fl_error:
  assumes "fl x = Fin y"
  shows "\<bar>y - x\<bar> \<le> pow2 (ulp_exponent \<bar>x\<bar>) / 2"
proof (cases "x = 0")
  case True
  then show ?thesis using assms pow2_pos [of "ulp_exponent \<bar>x\<bar>"] by (simp add: fl_def)
next
  case False
  define p where "p = ulp_exponent \<bar>x\<bar>"
  define m where "m = significand \<bar>x\<bar>"
  have pp: "0 < pow2 p" by (rule pow2_pos)
  have "\<bar>of_int m - \<bar>x\<bar> / pow2 p\<bar> \<le> 1 / 2"
    unfolding m_def p_def significand_def by (rule round_half_even_near)
  then have "\<bar>of_int m - \<bar>x\<bar> / pow2 p\<bar> * pow2 p \<le> 1 / 2 * pow2 p"
    using pp by (intro mult_right_mono) simp_all
  then have "\<bar>(of_int m - \<bar>x\<bar> / pow2 p) * pow2 p\<bar> \<le> pow2 p / 2"
    using pp by (simp add: abs_mult)
  then have e: "\<bar>of_int m * pow2 p - \<bar>x\<bar>\<bar> \<le> pow2 p / 2"
    using pp by (simp add: algebra_simps)
  have "y = (if 0 < x then of_int m * pow2 p else - (of_int m * pow2 p))"
    using assms False by (simp add: fl_def Let_def p_def m_def split: if_splits)
  then show ?thesis using e False unfolding p_def [symmetric] by (auto simp: abs_if split: if_splits)
qed

text \<open>Every result of rounding is a multiple of \<open>2\<^sup>-\<^sup>1\<^sup>0\<^sup>7\<^sup>4\<close> or an infinity.\<close>

lemma fl_ordinary: "ordinary (fl x)"
proof -
  have g: "on_grid (of_int (significand a) * pow2 (ulp_exponent a))" for a
    by (rule on_grid_scaled [OF ulp_exponent_ge])
  show ?thesis
    using g on_grid_minus [OF g] by (simp add: fl_def ordinary_def Let_def on_grid_zero)
qed

text \<open>The sign of a rounded value on the grid is the sign of the value: no difference
  of two distinct doubles rounds to \<open>0\<close>.\<close>

lemma fl_gt_zero: assumes "on_grid z" shows "js_gt (fl z) (Fin 0) = (0 < z)"
proof -
  consider "z = 0" | "0 < z" | "z < 0" by linarith
  then show ?thesis
  proof cases
    case 1
    then show ?thesis by (simp add: fl_def js_gt_def)
  next
    case 2
    then have "1 \<le> significand \<bar>z\<bar>" using significand_pos [of z] assms by simp
    then have "0 < rat_of_int (significand \<bar>z\<bar>) * pow2 (ulp_exponent \<bar>z\<bar>)"
      using pow2_pos [of "ulp_exponent \<bar>z\<bar>"] by (simp add: zero_less_mult_iff)
    then show ?thesis using 2 by (simp add: fl_def js_gt_def Let_def)
  next
    case 3
    then have "0 \<le> significand \<bar>z\<bar>" using significand_nonneg [of "\<bar>z\<bar>"] by simp
    then have "0 \<le> rat_of_int (significand \<bar>z\<bar>) * pow2 (ulp_exponent \<bar>z\<bar>)"
      using pow2_pos [of "ulp_exponent \<bar>z\<bar>"] by (simp add: zero_le_mult_iff)
    then show ?thesis using 3 by (simp add: fl_def js_gt_def Let_def)
  qed
qed

lemma js_sub_sign:
  assumes "ordinary a" and "ordinary b"
  shows "js_gt (js_sub a b) (Fin 0) = js_less b a"
proof (cases a)
  case (Fin x)
  note a = this
  show ?thesis
  proof (cases b)
    case (Fin y)
    have "on_grid (x + - y)"
      using assms a Fin by (intro on_grid_add on_grid_minus) (simp_all add: ordinary_def)
    then show ?thesis using a Fin by (simp add: js_sub_def fl_gt_zero)
  qed (use a assms in \<open>simp_all add: js_sub_def js_gt_def ordinary_def\<close>)
qed (use assms in \<open>cases b; simp add: js_sub_def js_gt_def ordinary_def\<close>)+

lemma js_sub_self: "\<not> js_gt (js_sub c c) (Fin 0)"
  by (cases c) (simp_all add: js_sub_def js_gt_def fl_def)

text \<open>On numbers other than \<^verbatim>\<open>NaN\<close>, \<open>js_less\<close> is a strict linear order and \<open>js_le\<close>
  its reflexive closure.\<close>

lemma ordinary_not_NaN: "ordinary a \<Longrightarrow> a \<noteq> NaN"
  by (auto simp: ordinary_def)

lemma js_less_trans: "js_less a b \<Longrightarrow> js_less b c \<Longrightarrow> js_less a c"
  by (cases a; cases b; cases c) simp_all

lemma js_le_trans: "js_le a b \<Longrightarrow> js_le b c \<Longrightarrow> js_le a c"
  by (cases a; cases b; cases c) (simp_all add: js_le_def)

lemma js_less_imp_le: "js_less a b \<Longrightarrow> js_le a b"
  by (cases a; cases b) (simp_all add: js_le_def)

lemma not_js_less_imp_le: "a \<noteq> NaN \<Longrightarrow> b \<noteq> NaN \<Longrightarrow> \<not> js_less b a \<Longrightarrow> js_le a b"
  by (simp add: js_le_def)

lemma js_less_neq: "js_less a b \<Longrightarrow> a \<noteq> b"
  by (cases a; cases b) auto

text \<open>Multiplying a double by 1 leaves it as it is.\<close>

lemma js_mul_one: "is_double q \<Longrightarrow> js_mul q (Fin 1) = q"
  by (cases q) (simp_all add: is_double_def)


section \<open>Properties of the dashboard\<close>

lemma mset_insert_by: "mset (insert_by cmp x xs) = add_mset x (mset xs)"
  by (induction xs) auto

lemma mset_array_sort: "mset (array_sort cmp xs) = mset xs"
  unfolding array_sort_def by (induction xs) (auto simp: mset_insert_by)

lemma length_array_sort: "length (array_sort cmp xs) = length xs"
proof -
  have "size (mset (array_sort cmp xs)) = size (mset xs)"
    by (simp add: mset_array_sort)
  then show ?thesis by simp
qed

lemma set_insert_by: "set (insert_by cmp x xs) = insert x (set xs)"
proof -
  have "set_mset (mset (insert_by cmp x xs)) = set_mset (add_mset x (mset xs))"
    by (simp only: mset_insert_by)
  then show ?thesis by simp
qed

lemma set_array_sort: "set (array_sort cmp xs) = set xs"
proof -
  have "set_mset (mset (array_sort cmp xs)) = set_mset (mset xs)"
    by (simp only: mset_array_sort)
  then show ?thesis by simp
qed

lemma lowStock_filter: "(\<lambda>i. js_gt (minLevel i) (Fin 0) \<and> js_le (quantity i) (minLevel i)) = isLowStock"
  by (intro ext) (simp add: isLowStock_def)

text \<open>The criticality of a low-stock item with a finite quantity is not \<^verbatim>\<open>NaN\<close>.\<close>

lemma criticality_ordinary:
  assumes "isLowStock i" and "is_finite (quantity i)"
  shows "ordinary (criticality i)"
proof -
  obtain q where q: "quantity i = Fin q"
    using assms(2) by (cases "quantity i") (simp_all add: is_finite_def)
  show ?thesis
  proof (cases "minLevel i")
    case (Fin m)
    then have "m \<noteq> 0" using assms(1) by (simp add: isLowStock_def js_gt_def)
    then show ?thesis using q Fin by (simp add: criticality_def fl_ordinary)
  next
    case PInf
    then show ?thesis using q by (simp add: criticality_def ordinary_def on_grid_zero)
  next
    case MInf
    then show ?thesis using assms(1) by (simp add: isLowStock_def js_gt_def)
  next
    case NaN
    then show ?thesis using assms(1) by (simp add: isLowStock_def js_gt_def)
  qed
qed

text \<open>On such items the comparator says "greater" exactly when the criticality is.\<close>

lemma lowStockCompare_gt:
  assumes "ordinary (criticality a)" and "ordinary (criticality b)"
  shows "js_gt (lowStockCompare a b) (Fin 0) = js_less (criticality b) (criticality a)"
  using js_sub_sign [OF assms] by (simp add: lowStockCompare_def criticality_def)

lemma insert_by_sorted:
  assumes "ordinary (criticality x)" and "\<forall>y\<in>set ys. ordinary (criticality y)"
    and "sorted_wrt (\<lambda>a b. js_le (criticality a) (criticality b)) ys"
  shows "sorted_wrt (\<lambda>a b. js_le (criticality a) (criticality b)) (insert_by lowStockCompare x ys)"
  using assms(2,3)
proof (induction ys)
  case Nil
  then show ?case by simp
next
  case (Cons y ys)
  have oy: "ordinary (criticality y)" using Cons.prems(1) by simp
  show ?case
  proof (cases "js_gt (lowStockCompare x y) (Fin 0)")
    case True
    then have "js_less (criticality y) (criticality x)"
      using lowStockCompare_gt [OF assms(1) oy] by simp
    then have "js_le (criticality y) (criticality x)" by (rule js_less_imp_le)
    moreover have "sorted_wrt (\<lambda>a b. js_le (criticality a) (criticality b))
                     (insert_by lowStockCompare x ys)"
      using Cons by simp
    ultimately show ?thesis using True Cons.prems(2) by (auto simp: set_insert_by)
  next
    case False
    then have "\<not> js_less (criticality y) (criticality x)"
      using lowStockCompare_gt [OF assms(1) oy] by simp
    then have xy: "js_le (criticality x) (criticality y)"
      using ordinary_not_NaN [OF assms(1)] ordinary_not_NaN [OF oy]
      by (intro not_js_less_imp_le)
    have "\<forall>z\<in>set ys. js_le (criticality x) (criticality z)"
      using xy Cons.prems(2) by (auto intro: js_le_trans)
    then show ?thesis using False xy Cons.prems(2) by simp
  qed
qed

lemma array_sort_sorted:
  assumes "\<forall>y\<in>set xs. ordinary (criticality y)"
  shows "sorted_wrt (\<lambda>a b. js_le (criticality a) (criticality b)) (array_sort lowStockCompare xs)"
  using assms
proof (induction xs)
  case Nil
  then show ?case by (simp add: array_sort_def)
next
  case (Cons x xs)
  have s: "sorted_wrt (\<lambda>a b. js_le (criticality a) (criticality b)) (array_sort lowStockCompare xs)"
    using Cons by simp
  have o: "\<forall>y\<in>set (array_sort lowStockCompare xs). ordinary (criticality y)"
    using Cons.prems by (simp add: set_array_sort)
  have "sorted_wrt (\<lambda>a b. js_le (criticality a) (criticality b))
          (insert_by lowStockCompare x (array_sort lowStockCompare xs))"
    using Cons.prems by (intro insert_by_sorted [OF _ o s]) simp
  then show ?case by (simp add: array_sort_def)
qed

text \<open>Items of equal criticality keep their order: an item is never moved behind one
  of the same criticality.\<close>

lemma insert_by_stable:
  "filter (\<lambda>i. criticality i = k) (insert_by lowStockCompare x ys)
     = (if criticality x = k then x # filter (\<lambda>i. criticality i = k) ys
        else filter (\<lambda>i. criticality i = k) ys)"
proof (induction ys)
  case Nil
  then show ?case by simp
next
  case (Cons y ys)
  show ?case
  proof (cases "js_gt (lowStockCompare x y) (Fin 0)")
    case True
    have "criticality y \<noteq> criticality x"
    proof
      assume "criticality y = criticality x"
      then have "lowStockCompare x y = js_sub (criticality x) (criticality x)"
        by (simp add: lowStockCompare_def criticality_def)
      then show False using True js_sub_self by simp
    qed
    then show ?thesis using True Cons by auto
  next
    case False
    then show ?thesis by simp
  qed
qed

lemma array_sort_stable:
  "filter (\<lambda>i. criticality i = k) (array_sort lowStockCompare xs)
     = filter (\<lambda>i. criticality i = k) xs"
proof (induction xs)
  case Nil
  then show ?case by (simp add: array_sort_def)
next
  case (Cons x xs)
  have "array_sort lowStockCompare (x # xs)
          = insert_by lowStockCompare x (array_sort lowStockCompare xs)"
    by (simp add: array_sort_def)
  then show ?case using Cons by (simp add: insert_by_stable)
qed

text \<open>
  C7, as stated, does not hold: the list is ordered by the quotient the comparator
  computes, which is rounded to a double. Of the two sample items, 1 of 3 has the
  exact quotient \<open>1/3\<close> and \<^verbatim>\<open>0.3333333333333333\<close> of 1 a smaller one, but both
  quotients are the same double, so the list keeps the two in their input order, the
  item of greater \<open>quantity / minLevel\<close> first.
\<close>

theorem rounded_quotient_counterexample:
  "lowStockItems [thirdA, thirdB] = [thirdA, thirdB]
   \<and> exact (quantity thirdB) / exact (minLevel thirdB)
       < exact (quantity thirdA) / exact (minLevel thirdA)"
  by code_simp

text \<open>
  C7, amended: for every list of items, \<open>lowStockItems\<close> returns exactly the items with
  \<open>minLevel > 0\<close> and \<open>quantity \<le> minLevel\<close> (as a multiset: each such item as often as
  it occurs in the input, and nothing else); when the quantities are finite numbers,
  the list is in ascending order of the double quotient \<^verbatim>\<open>quantity / minLevel\<close> as
  JavaScript computes it, and items whose quotients are the same double keep their
  input order. The result is a function of the item list alone.
\<close>

theorem lowStockItems_filter_sorted:
  "mset (lowStockItems its) = mset (filter isLowStock its)
   \<and> ((\<forall>i\<in>set its. is_finite (quantity i)) \<longrightarrow>
        sorted_wrt (\<lambda>a b. js_le (criticality a) (criticality b)) (lowStockItems its)
        \<and> filter (\<lambda>i. criticality i = k) (lowStockItems its)
            = filter (\<lambda>i. criticality i = k) (filter isLowStock its))"
proof (intro conjI impI)
  show "mset (lowStockItems its) = mset (filter isLowStock its)"
    by (simp add: lowStockItems_def lowStock_filter mset_array_sort)
next
  assume fin: "\<forall>i\<in>set its. is_finite (quantity i)"
  have "\<forall>y\<in>set (filter isLowStock its). ordinary (criticality y)"
    using fin by (auto intro: criticality_ordinary)
  then show "sorted_wrt (\<lambda>a b. js_le (criticality a) (criticality b)) (lowStockItems its)"
    unfolding lowStockItems_def lowStock_filter by (rule array_sort_sorted)
next
  show "filter (\<lambda>i. criticality i = k) (lowStockItems its)
            = filter (\<lambda>i. criticality i = k) (filter isLowStock its)"
    unfolding lowStockItems_def lowStock_filter by (rule array_sort_stable)
qed

text \<open>
  Of five items, the three at or below their threshold are listed, the most critical
  first: 2 of 8, then 1 of 3, then 5 of 10.
\<close>

theorem lowStockItems_filter_sorted_witness:
  "list_all is_finite (map quantity sampleStock)
   \<and> lowStockItems sampleStock
       = [scenarioItem\<lparr>quantity := Fin 2, minLevel := Fin 8\<rparr>, thirdA,
          scenarioItem\<lparr>quantity := Fin 5\<rparr>]
   \<and> sorted_wrt (\<lambda>a b. js_le (criticality a) (criticality b)) (lowStockItems sampleStock)"
proof -
  have f: "\<forall>i\<in>set sampleStock. is_finite (quantity i)"
    by (simp add: sampleStock_def is_finite_def scenarioItem_def thirdA_def otherItem_def)
  have e: "lowStockItems sampleStock
       = [scenarioItem\<lparr>quantity := Fin 2, minLevel := Fin 8\<rparr>, thirdA,
          scenarioItem\<lparr>quantity := Fin 5\<rparr>]"
    by code_simp
  have g: "list_all is_finite (map quantity sampleStock)"
    using f by (simp add: list_all_iff)
  have "sorted_wrt (\<lambda>a b. js_le (criticality a) (criticality b)) (lowStockItems sampleStock)"
    using f lowStockItems_filter_sorted [of sampleStock "Fin 0"] by blast
  then show ?thesis
    using g e by simp
qed

text \<open>
  C10: the low-stock counter of the KPI card equals the length of the rendered
  low-stock list, for every list of items.
\<close>

theorem lowStockCount_eq_length:
  "lowStockCount its = length (lowStockItems its)"
  by (simp add: lowStockCount_def lowStockItems_def length_array_sort)


section \<open>Properties of the transaction manager\<close>

subsection \<open>Auxiliary facts\<close>

lemma alreadyInCart_Nil: "alreadyInCart [] ident = Fin 0"
  by (simp add: alreadyInCart_def)

lemma alreadyInCart_append:
  "alreadyInCart (cart @ [l]) ident =
     (if itemId l = ident then js_add (alreadyInCart cart ident) (totalBaseQuantity l)
      else alreadyInCart cart ident)"
  by (simp add: alreadyInCart_def)

lemma js_or_truthy: "js_truthy (js_or r (Fin 1))"
  by (simp add: js_or_def js_truthy_def)

lemma js_or_cases: "js_or r d = (if js_truthy r then r else d)"
  by (simp add: js_or_def)

lemma resolveRatio_truthy: "js_truthy (resolveRatio item u)"
  by (simp add: resolveRatio_def js_or_truthy split: option.splits)
    (simp add: js_truthy_def)

lemma find_None_names:
  "unitName \<notin> unit_name ` set us \<Longrightarrow> find (\<lambda>u. unit_name u = unitName) us = None"
  by (induction us) auto

lemma resolveRatio_unknown:
  assumes "unitName \<notin> set (unitOptions item)"
  shows "resolveRatio item unitName = Fin 1"
proof (cases "alternativeUnits item")
  case None
  then show ?thesis
    using assms by (simp add: resolveRatio_def findAlternativeUnit_def unitOptions_def)
next
  case (Some us)
  then have "unitName \<notin> unit_name ` set us" and b: "unitName \<noteq> baseUnit item"
    using assms by (simp_all add: unitOptions_def)
  then have "find (\<lambda>u. unit_name u = unitName) us = None"
    by (simp add: find_None_names)
  then show ?thesis
    using b Some by (simp add: resolveRatio_def findAlternativeUnit_def)
qed

text \<open>The form after the item, the unit and the quantity were entered.\<close>

lemma formFilled_eq:
  "formFilled item u q st =
     st\<lparr>selectedItem := Some item, searchQuery := item_name item,
        form_selectedUnit := u, form_conversionRatio := resolveRatio item u,
        form_quantityInput := q,
        isAutocompleteOpen := False, validationError := None, activeIndex := - 1\<rparr>"
  by (simp add: formFilled_def setQuantityInput_def handleUnitSelect_def handleSelectItem_def)

text \<open>The three outcomes of adding a line, in the order the handler decides them.\<close>

lemma addLine_cases:
  "addLine t item u q st =
     (case q of None \<Rightarrow> Inl InvalidQuantity
      | Some n \<Rightarrow>
         if \<not> js_truthy n then Inl InvalidQuantity
         else if form_type st = OUT
                 \<and> js_gt (js_add (alreadyInCart (targetCartItems t st) (item_id item))
                             (js_mul n (resolveRatio item u)))
                      (quantity item)
         then Inl InsufficientStock
         else Inr ((if t = New then st\<lparr>cartItems := cartItems st @ [newLine item u n]\<rparr>
                    else st\<lparr>editCartItems := editCartItems st @ [newLine item u n]\<rparr>)
                   \<lparr>selectedItem := None, searchQuery := '''',
                    form_selectedUnit := u, form_conversionRatio := resolveRatio item u,
                    form_quantityInput := None,
                    isAutocompleteOpen := False, validationError := None, activeIndex := - 1\<rparr>))"
  by (cases q) (auto simp: addLine_def formFilled_eq handleAddToCart_def Let_def
      targetCartItems_def newLine_def)

lemma addLine_Inr_cart:
  assumes "addLine t item u (Some q) st = Inr st1"
  shows "targetCartItems t st1 = targetCartItems t st @ [newLine item u q]"
    and "form_type st1 = form_type st"
  using assms by (auto simp: addLine_cases targetCartItems_def split: if_splits)

lemma addLine_frame:
  "inventory (afterAddLine t item u q st) = inventory st"
  "calls (afterAddLine t item u q st) = calls st"
  by (cases q; simp add: afterAddLine_def addLine_cases formFilled_eq state_after_def)+

lemma afterAddLine_rejected:
  assumes "q = None \<or> q = Some (Fin 0)"
  shows "addLine t item u q st = Inl InvalidQuantity"
    and "cartItems (afterAddLine t item u q st) = cartItems st"
    and "editCartItems (afterAddLine t item u q st) = editCartItems st"
  using assms
  by (auto simp: afterAddLine_def addLine_cases formFilled_eq state_after_def js_truthy_def)

lemma handleAddToCart_Inr:
  assumes "handleAddToCart t st = Inr st1"
  shows "\<exists>l. targetCartItems t st1 = targetCartItems t st @ [l]
             \<and> totalBaseQuantity l = js_mul (quantityInput l) (conversionRatio l)
             \<and> conversionRatio l = form_conversionRatio st"
    and "take (length (cartItems st)) (cartItems st1) = cartItems st"
    and "take (length (editCartItems st)) (editCartItems st1) = editCartItems st"
  using assms
  by (auto simp: handleAddToCart_def Let_def targetCartItems_def
      split: option.splits if_splits)

lemma updateEditItemQty_cart:
  assumes "i < length (editCartItems st)"
  shows "map_sum id editCartItems (updateEditItemQty i n (setInventory catalog st))
          = Inr ((editCartItems st)[i := (editCartItems st ! i)
                   \<lparr>quantityInput := n,
                    totalBaseQuantity :=
                      js_mul n (js_or (conversionRatio (editCartItems st ! i)) (Fin 1))\<rparr>])"
  using assms by (simp add: updateEditItemQty_def setInventory_def Let_def)

lemma openEditModal_simps:
  "form_type (openEditModal tx st) = form_type st"
  "editCartItems (openEditModal tx st) = items tx"
  by (simp_all add: openEditModal_def)

lemma filterIndexNot_enumerate:
  "map snd (filter (\<lambda>(idx, _). idx \<noteq> n + i) (enumerate n xs)) = take i xs @ drop (Suc i) xs"
proof (induction xs arbitrary: n i)
  case Nil
  then show ?case by simp
next
  case (Cons x xs)
  show ?case
  proof (cases i)
    case 0
    have "\<forall>p \<in> set (enumerate (Suc n) xs). fst p \<noteq> n"
      by (auto simp: in_set_enumerate_eq)
    then have "filter (\<lambda>(idx, _). idx \<noteq> n) (enumerate (Suc n) xs) = enumerate (Suc n) xs"
      by (intro filter_True) auto
    then show ?thesis using 0 by simp
  next
    case (Suc j)
    have "map snd (filter (\<lambda>(idx, _). idx \<noteq> Suc n + j) (enumerate (Suc n) xs))
            = take j xs @ drop (Suc j) xs"
      by (rule Cons.IH)
    then show ?thesis using Suc by simp
  qed
qed

lemma filterIndexNot_take_drop: "filterIndexNot i xs = take i xs @ drop (Suc i) xs"
  using filterIndexNot_enumerate [of 0 i xs] by (simp add: filterIndexNot_def)

subsection \<open>Outbound availability\<close>

text \<open>
  C1, as stated, does not hold: the sum and the comparison are computed on doubles.
  With \<^verbatim>\<open>0.7999999999999999\<close> kg on hand, a draft of type OUT accepts \<^verbatim>\<open>0.1\<close> kg
  and then \<^verbatim>\<open>0.7\<close> kg of the same item: the two totals add up to more than the
  quantity on hand, but their rounded sum is the quantity on hand itself, which is
  not greater.
\<close>

theorem rounded_sum_counterexample:
  "form_type outDraft = OUT
   \<and> map_sum id cartItems
       (and_then (addLine New weighedItem ''Kg'' (Some (fl (1 / 10))) outDraft)
          (addLine New weighedItem ''Kg'' (Some (fl (7 / 10)))))
     = Inr [newLine weighedItem ''Kg'' (fl (1 / 10)), newLine weighedItem ''Kg'' (fl (7 / 10))]
   \<and> exact (totalBaseQuantity (newLine weighedItem ''Kg'' (fl (1 / 10))))
       + exact (totalBaseQuantity (newLine weighedItem ''Kg'' (fl (7 / 10))))
       > exact (quantity weighedItem)"
  by code_simp

text \<open>
  C1, amended: in a draft of type OUT, adding a line with a quantity that passes the
  guard of line 177 fails with \<open>InsufficientStock\<close> exactly when
  \<^verbatim>\<open>alreadyInCart + quantityInput * conversionRatio > item.quantity\<close> holds in
  double arithmetic (the product and the sum each rounded to a double), where
  \<open>alreadyInCart\<close> starts from 0 and adds, in the order of the cart and rounding at
  each step, the \<open>totalBaseQuantity\<close> of the lines with the item's \<open>itemId\<close>, skipping
  the lines of other items. Hence, when a first line was added and the rounded sum of
  what was drafted and the two lines exceeds the quantity, the second \<open>addLine\<close> fails,
  whether or not each line fits alone.
\<close>

theorem addLine_insufficient_stock:
  assumes "form_type st = OUT" and "js_truthy q"
  shows "((addLine t item u (Some q) st = Inl InsufficientStock)
            = js_gt (js_add (alreadyInCart (targetCartItems t st) (item_id item))
                       (js_mul q (resolveRatio item u)))
                (quantity item))
       \<and> alreadyInCart [] ident = Fin 0
       \<and> alreadyInCart (cart @ [l]) ident
           = (if itemId l = ident then js_add (alreadyInCart cart ident) (totalBaseQuantity l)
              else alreadyInCart cart ident)
       \<and> (\<forall>st1 u2 q2.
             addLine t item u (Some q) st = Inr st1 \<and> js_truthy q2
             \<and> js_gt (js_add (js_add (alreadyInCart (targetCartItems t st) (item_id item))
                                 (js_mul q (resolveRatio item u)))
                          (js_mul q2 (resolveRatio item u2)))
                  (quantity item)
             \<longrightarrow> addLine t item u2 (Some q2) st1 = Inl InsufficientStock)"
proof (intro conjI allI impI)
  show "(addLine t item u (Some q) st = Inl InsufficientStock)
            = js_gt (js_add (alreadyInCart (targetCartItems t st) (item_id item))
                       (js_mul q (resolveRatio item u)))
                (quantity item)"
    using assms by (simp add: addLine_cases)
next
  show "alreadyInCart [] ident = Fin 0" by (rule alreadyInCart_Nil)
next
  show "alreadyInCart (cart @ [l]) ident
           = (if itemId l = ident then js_add (alreadyInCart cart ident) (totalBaseQuantity l)
              else alreadyInCart cart ident)"
    by (rule alreadyInCart_append)
next
  fix st1 u2 q2
  assume h: "addLine t item u (Some q) st = Inr st1 \<and> js_truthy q2
             \<and> js_gt (js_add (js_add (alreadyInCart (targetCartItems t st) (item_id item))
                                 (js_mul q (resolveRatio item u)))
                          (js_mul q2 (resolveRatio item u2)))
                  (quantity item)"
  then have a: "addLine t item u (Some q) st = Inr st1" by simp
  have c: "targetCartItems t st1 = targetCartItems t st @ [newLine item u q]"
    by (rule addLine_Inr_cart(1) [OF a])
  have ty: "form_type st1 = OUT"
    using addLine_Inr_cart(2) [OF a] assms(1) by simp
  have s: "alreadyInCart (targetCartItems t st1) (item_id item)
            = js_add (alreadyInCart (targetCartItems t st) (item_id item))
                (js_mul q (resolveRatio item u))"
    by (simp add: c alreadyInCart_append newLine_def)
  show "addLine t item u2 (Some q2) st1 = Inl InsufficientStock"
    using h ty s by (simp add: addLine_cases)
qed

text \<open>
  The scenario of the ledger: with 100 pieces on hand and boxes of 12, nine boxes
  (108 pieces) are refused; five boxes (60) and fifty pieces each fit alone, and the
  fifty pieces are refused once the five boxes are in the draft. Lines of another
  item do not count: after 90 pieces of the second item, the fifty pieces are
  accepted.
\<close>

theorem addLine_insufficient_stock_witness:
  "form_type outDraft = OUT \<and> js_truthy (Fin 9)
   \<and> addLine New scenarioItem ''Box'' (Some (Fin 9)) outDraft = Inl InsufficientStock
   \<and> map_sum id cartItems (addLine New scenarioItem ''Box'' (Some (Fin 5)) outDraft)
       = Inr [newLine scenarioItem ''Box'' (Fin 5)]
   \<and> map_sum id cartItems (addLine New scenarioItem ''Pcs'' (Some (Fin 50)) outDraft)
       = Inr [newLine scenarioItem ''Pcs'' (Fin 50)]
   \<and> and_then (addLine New scenarioItem ''Box'' (Some (Fin 5)) outDraft)
        (addLine New scenarioItem ''Pcs'' (Some (Fin 50))) = Inl InsufficientStock
   \<and> alreadyInCart ([] @ [newLine otherItem ''Pcs'' (Fin 90)]) (item_id scenarioItem) = Fin 0
   \<and> map_sum id cartItems
       (and_then (addLine New otherItem ''Pcs'' (Some (Fin 90)) outDraft)
          (addLine New scenarioItem ''Pcs'' (Some (Fin 50))))
       = Inr [newLine otherItem ''Pcs'' (Fin 90), newLine scenarioItem ''Pcs'' (Fin 50)]"
proof -
  have t: "form_type outDraft = OUT" by code_simp
  have n9: "js_truthy (Fin 9)" and n5: "js_truthy (Fin 5)" and n50: "js_truthy (Fin 50)"
    by (simp_all add: js_truthy_def)
  have g9: "js_gt (js_add (alreadyInCart (targetCartItems New outDraft) (item_id scenarioItem))
                     (js_mul (Fin 9) (resolveRatio scenarioItem ''Box'')))
              (quantity scenarioItem)"
    by code_simp
  have A: "addLine New scenarioItem ''Box'' (Some (Fin 9)) outDraft = Inl InsufficientStock"
    using addLine_insufficient_stock [OF t n9, of New scenarioItem "''Box''"] g9 by blast
  have D: "map_sum id cartItems (addLine New scenarioItem ''Box'' (Some (Fin 5)) outDraft)
       = Inr [newLine scenarioItem ''Box'' (Fin 5)]"
    by code_simp
  have E: "map_sum id cartItems (addLine New scenarioItem ''Pcs'' (Some (Fin 50)) outDraft)
       = Inr [newLine scenarioItem ''Pcs'' (Fin 50)]"
    by code_simp
  obtain st1 where s1: "addLine New scenarioItem ''Box'' (Some (Fin 5)) outDraft = Inr st1"
    using D by (cases "addLine New scenarioItem ''Box'' (Some (Fin 5)) outDraft") simp_all
  have g2: "js_gt (js_add (js_add (alreadyInCart (targetCartItems New outDraft)
                                      (item_id scenarioItem))
                             (js_mul (Fin 5) (resolveRatio scenarioItem ''Box'')))
                     (js_mul (Fin 50) (resolveRatio scenarioItem ''Pcs'')))
              (quantity scenarioItem)"
    by code_simp
  have C: "addLine New scenarioItem ''Pcs'' (Some (Fin 50)) st1 = Inl InsufficientStock"
    using addLine_insufficient_stock [OF t n5, of New scenarioItem "''Box''"] s1 n50 g2
    by blast
  have i: "itemId (newLine otherItem ''Pcs'' (Fin 90)) \<noteq> item_id scenarioItem"
    by code_simp
  have F: "alreadyInCart ([] @ [newLine otherItem ''Pcs'' (Fin 90)]) (item_id scenarioItem)
             = Fin 0"
    using addLine_insufficient_stock [OF t n9, of New scenarioItem "''Box''"
        "item_id scenarioItem" "[]" "newLine otherItem ''Pcs'' (Fin 90)"] i
    by simp
  have G: "map_sum id cartItems
       (and_then (addLine New otherItem ''Pcs'' (Some (Fin 90)) outDraft)
          (addLine New scenarioItem ''Pcs'' (Some (Fin 50))))
       = Inr [newLine otherItem ''Pcs'' (Fin 90), newLine scenarioItem ''Pcs'' (Fin 50)]"
    by code_simp
  show ?thesis using t n9 A C D E F G s1 by (simp add: and_then_def)
qed


subsection \<open>Unit resolution\<close>

text \<open>
  C2, as stated, does not hold: a unit name that is neither the base unit nor an
  alternative unit of the item does not make unit resolution fail. For the scenario
  item, the unknown unit \<open>Crate\<close> resolves to the ratio 1, and adding 5 of it to a
  draft appends a line of 5 base units.
\<close>

theorem unknown_unit_counterexample:
  "''Crate'' \<notin> set (unitOptions scenarioItem)
   \<and> form_conversionRatio (handleUnitSelect ''Crate'' (handleSelectItem scenarioItem outDraft))
       = Fin 1
   \<and> map_sum id cartItems (addLine New scenarioItem ''Crate'' (Some (Fin 5)) outDraft)
       = Inr [\<lparr> itemId = ''item-1'', itemName = ''Bolt'', quantityInput = Fin 5,
                selectedUnit = ''Crate'', conversionRatio = Fin 1,
                totalBaseQuantity = Fin 5 \<rparr>]"
  by code_simp

text \<open>
  C2, amended: for every item and every unit name that equals neither the item's base
  unit nor the name of one of its alternative units (the unit \<^verbatim>\<open><select>\<close> offers no
  such name), \<open>handleUnitSelect\<close> stores that name with the conversion ratio 1, and
  \<open>addLine\<close> with that name behaves as with ratio 1: unless the draft is of type OUT
  and what is drafted plus the quantity exceeds what is available, it appends a line
  whose \<open>totalBaseQuantity\<close> is the quantity entered times 1, which for every double
  is the quantity entered.
\<close>

theorem unknown_unit_defaults_to_one:
  assumes "unitName \<notin> set (unitOptions item)"
  shows "form_conversionRatio (handleUnitSelect unitName (handleSelectItem item st)) = Fin 1
       \<and> form_selectedUnit (handleUnitSelect unitName (handleSelectItem item st)) = unitName
       \<and> (js_truthy q
            \<and> \<not> (form_type st = OUT
                   \<and> js_gt (js_add (alreadyInCart (targetCartItems t st) (item_id item))
                               (js_mul q (Fin 1)))
                        (quantity item))
            \<longrightarrow> map_sum id (targetCartItems t) (addLine t item unitName (Some q) st)
                = Inr (targetCartItems t st
                       @ [\<lparr> itemId = item_id item, itemName = item_name item, quantityInput = q,
                            selectedUnit = unitName, conversionRatio = Fin 1,
                            totalBaseQuantity = js_mul q (Fin 1) \<rparr>]))
       \<and> (is_double q \<longrightarrow> js_mul q (Fin 1) = q)"
proof -
  have r: "resolveRatio item unitName = Fin 1"
    by (rule resolveRatio_unknown [OF assms])
  show ?thesis
    by (auto simp: addLine_cases r newLine_def targetCartItems_def handleUnitSelect_def
        handleSelectItem_def js_mul_one)
qed

theorem unknown_unit_defaults_to_one_witness:
  "''Crate'' \<notin> set (unitOptions scenarioItem)
   \<and> form_conversionRatio (handleUnitSelect ''Crate'' (handleSelectItem scenarioItem inDraft))
       = Fin 1
   \<and> js_truthy (Fin 7) \<and> form_type inDraft \<noteq> OUT \<and> is_double (Fin 7)
   \<and> map_sum id (targetCartItems New) (addLine New scenarioItem ''Crate'' (Some (Fin 7)) inDraft)
       = Inr [\<lparr> itemId = ''item-1'', itemName = ''Bolt'', quantityInput = Fin 7,
                selectedUnit = ''Crate'', conversionRatio = Fin 1,
                totalBaseQuantity = Fin 7 \<rparr>]"
proof -
  have h1: "''Crate'' \<notin> set (unitOptions scenarioItem)" by code_simp
  have h2: "form_type inDraft \<noteq> OUT" by code_simp
  have h3: "js_truthy (Fin 7)" by (simp add: js_truthy_def)
  have h4: "is_double (Fin 7)" by code_simp
  have c: "targetCartItems New inDraft = []" "item_id scenarioItem = ''item-1''"
    "item_name scenarioItem = ''Bolt''"
    by code_simp+
  show ?thesis
    using h1 h2 h3 h4 unknown_unit_defaults_to_one [OF h1, of inDraft "Fin 7" New]
    by (simp add: c)
qed

subsection \<open>Lines keep their total\<close>

text \<open>
  C3, as stated, does not hold. The stored total is the product rounded to a double:
  \<^verbatim>\<open>0.1\<close> scoops of 3 kg are stored as \<^verbatim>\<open>0.30000000000000004\<close>, which is not the
  product of the stored quantity and the stored ratio. And an edit does not always
  recompute the total from the line's stored ratio: for a stored ratio of 0 the
  edit of line 284 multiplies by 1, so the line of the sample transaction, edited to
  the quantity 7, holds the total 7 with the ratio 0.
\<close>

theorem stored_total_counterexample:
  "map_sum id cartItems (addLine New weighedItem ''Scoop'' (Some (fl (1 / 10))) inDraft)
     = Inr [\<lparr> itemId = ''item-3'', itemName = ''Flour'',
              quantityInput = Fin (3602879701896397 / 36028797018963968),
              selectedUnit = ''Scoop'', conversionRatio = Fin 3,
              totalBaseQuantity = Fin (1351079888211149 / 4503599627370496) \<rparr>]
   \<and> (1351079888211149 / 4503599627370496 :: rat)
       \<noteq> 3602879701896397 / 36028797018963968 * 3
   \<and> map_sum id editCartItems
       (updateEditItemQty 0 (Fin 7) (openEditModal zeroRatioTransaction inDraft))
     = Inr [\<lparr> itemId = ''item-1'', itemName = ''Bolt'', quantityInput = Fin 7,
              selectedUnit = ''Box'', conversionRatio = Fin 0, totalBaseQuantity = Fin 7 \<rparr>]
   \<and> js_mul (Fin 7) (Fin 0) = Fin 0"
  by code_simp

text \<open>
  C3, amended: a line that \<open>handleAddToCart\<close> creates is appended to its cart with
  \<open>totalBaseQuantity\<close> the double product \<^verbatim>\<open>quantityInput * conversionRatio\<close>, the
  ratio being the one stored on the line (the ratio of the form, which is neither 0
  nor \<^verbatim>\<open>NaN\<close> after a unit was selected); the lines that were in the carts stay as
  they were.
  Whatever catalog the component is given afterwards, selecting an item or a unit
  leaves the lines of both carts unchanged, opening the edit modal copies the lines
  of the transaction as they are, and an edit of a line's quantity recomputes the
  total as the double product of the new quantity and the line's own stored ratio,
  or 1 where the stored ratio is 0 or \<^verbatim>\<open>NaN\<close>, and leaves the other lines alone.
\<close>

theorem line_total_frozen:
  "(handleAddToCart t st = Inr st1 \<longrightarrow>
      (\<exists>l. targetCartItems t st1 = targetCartItems t st @ [l]
          \<and> totalBaseQuantity l = js_mul (quantityInput l) (conversionRatio l)
          \<and> conversionRatio l = form_conversionRatio st)
      \<and> take (length (cartItems st)) (cartItems st1) = cartItems st
      \<and> take (length (editCartItems st)) (editCartItems st1) = editCartItems st)
   \<and> js_truthy (form_conversionRatio (handleUnitSelect u (handleSelectItem item st)))
   \<and> cartItems (handleUnitSelect u (handleSelectItem item (setInventory catalog st))) = cartItems st
   \<and> editCartItems (handleUnitSelect u (handleSelectItem item (setInventory catalog st)))
       = editCartItems st
   \<and> editCartItems (openEditModal tx (setInventory catalog st)) = items tx
   \<and> (i < length (editCartItems st) \<longrightarrow>
        map_sum id editCartItems (updateEditItemQty i n (setInventory catalog st))
          = Inr ((editCartItems st)[i := (editCartItems st ! i)
                   \<lparr>quantityInput := n,
                    totalBaseQuantity :=
                      js_mul n (if js_truthy (conversionRatio (editCartItems st ! i))
                                then conversionRatio (editCartItems st ! i) else Fin 1)\<rparr>]))"
proof (intro conjI impI)
  assume a: "handleAddToCart t st = Inr st1"
  show "\<exists>l. targetCartItems t st1 = targetCartItems t st @ [l]
          \<and> totalBaseQuantity l = js_mul (quantityInput l) (conversionRatio l)
          \<and> conversionRatio l = form_conversionRatio st"
    by (rule handleAddToCart_Inr(1) [OF a])
  show "take (length (cartItems st)) (cartItems st1) = cartItems st"
    by (rule handleAddToCart_Inr(2) [OF a])
  show "take (length (editCartItems st)) (editCartItems st1) = editCartItems st"
    by (rule handleAddToCart_Inr(3) [OF a])
next
  show "js_truthy (form_conversionRatio (handleUnitSelect u (handleSelectItem item st)))"
    by (simp add: handleUnitSelect_def handleSelectItem_def resolveRatio_truthy)
  show "cartItems (handleUnitSelect u (handleSelectItem item (setInventory catalog st)))
          = cartItems st"
    by (simp add: handleUnitSelect_def handleSelectItem_def setInventory_def)
  show "editCartItems (handleUnitSelect u (handleSelectItem item (setInventory catalog st)))
          = editCartItems st"
    by (simp add: handleUnitSelect_def handleSelectItem_def setInventory_def)
  show "editCartItems (openEditModal tx (setInventory catalog st)) = items tx"
    by (simp add: openEditModal_def)
next
  assume h: "i < length (editCartItems st)"
  then show "map_sum id editCartItems (updateEditItemQty i n (setInventory catalog st))
          = Inr ((editCartItems st)[i := (editCartItems st ! i)
                   \<lparr>quantityInput := n,
                    totalBaseQuantity :=
                      js_mul n (if js_truthy (conversionRatio (editCartItems st ! i))
                                then conversionRatio (editCartItems st ! i) else Fin 1)\<rparr>])"
    by (simp add: updateEditItemQty_cart js_or_cases)
qed

text \<open>
  A draft holds 5 boxes at 12 pieces (60); the catalog then changes the box to 10
  pieces. A new line of one box gets the total 10, the old line keeps 60, and
  editing the committed line of 8 boxes down to 5 gives 5 * 12 = 60, not 50.
\<close>

theorem line_total_frozen_witness:
  "handleAddToCart New changedSession
     = Inr (state_after changedSession (handleAddToCart New changedSession))
   \<and> cartItems (state_after changedSession (handleAddToCart New changedSession))
       = [\<lparr> itemId = ''item-1'', itemName = ''Bolt'', quantityInput = Fin 5,
               selectedUnit = ''Box'', conversionRatio = Fin 12, totalBaseQuantity = Fin 60 \<rparr>,
          \<lparr> itemId = ''item-1'', itemName = ''Bolt'', quantityInput = Fin 1,
               selectedUnit = ''Box'', conversionRatio = Fin 10, totalBaseQuantity = Fin 10 \<rparr>]
   \<and> take (length (cartItems changedSession))
        (cartItems (state_after changedSession (handleAddToCart New changedSession)))
       = cartItems changedSession
   \<and> 0 < length (editCartItems changedSession)
   \<and> map_sum id editCartItems
       (updateEditItemQty 0 (Fin 5) (setInventory [changedItem] changedSession))
       = Inr [\<lparr> itemId = ''item-1'', itemName = ''Bolt'', quantityInput = Fin 5,
                selectedUnit = ''Box'', conversionRatio = Fin 12, totalBaseQuantity = Fin 60 \<rparr>]"
proof -
  have ok: "handleAddToCart New changedSession
              = Inr (state_after changedSession (handleAddToCart New changedSession))"
    by code_simp
  have two: "cartItems (state_after changedSession (handleAddToCart New changedSession))
       = [\<lparr> itemId = ''item-1'', itemName = ''Bolt'', quantityInput = Fin 5,
               selectedUnit = ''Box'', conversionRatio = Fin 12, totalBaseQuantity = Fin 60 \<rparr>,
          \<lparr> itemId = ''item-1'', itemName = ''Bolt'', quantityInput = Fin 1,
               selectedUnit = ''Box'', conversionRatio = Fin 10, totalBaseQuantity = Fin 10 \<rparr>]"
    by code_simp
  have len: "0 < length (editCartItems changedSession)"
    by code_simp
  have old: "(editCartItems changedSession)[0 := (editCartItems changedSession ! 0)
                   \<lparr>quantityInput := Fin 5,
                    totalBaseQuantity :=
                      js_mul (Fin 5) (if js_truthy (conversionRatio (editCartItems changedSession ! 0))
                                then conversionRatio (editCartItems changedSession ! 0) else Fin 1)\<rparr>]
       = [\<lparr> itemId = ''item-1'', itemName = ''Bolt'', quantityInput = Fin 5,
                selectedUnit = ''Box'', conversionRatio = Fin 12, totalBaseQuantity = Fin 60 \<rparr>]"
    by code_simp
  have pre: "take (length (cartItems changedSession))
        (cartItems (state_after changedSession (handleAddToCart New changedSession)))
       = cartItems changedSession"
    using ok line_total_frozen [of New changedSession
      "state_after changedSession (handleAddToCart New changedSession)"]
    by blast
  have ed: "map_sum id editCartItems
       (updateEditItemQty 0 (Fin 5) (setInventory [changedItem] changedSession))
       = Inr [\<lparr> itemId = ''item-1'', itemName = ''Bolt'', quantityInput = Fin 5,
                selectedUnit = ''Box'', conversionRatio = Fin 12, totalBaseQuantity = Fin 60 \<rparr>]"
    using len old line_total_frozen [of New changedSession
      "state_after changedSession (handleAddToCart New changedSession)"
      "''Box''" changedItem "[changedItem]" outTransaction 0 "Fin 5"]
    by simp
  show ?thesis
    using ok two len pre ed by simp
qed

subsection \<open>Saving an edit\<close>

text \<open>
  C4: for every committed transaction (of type OUT in particular), every line of it
  and every new quantity, changing the line's quantity in the edit modal and saving
  succeeds: \<open>onUpdateTransaction\<close> receives the transaction with the line's
  \<open>totalBaseQuantity\<close> recomputed, and the modal closes. The outcome does not depend
  on the inventory, so no comparison with the available quantity takes place.
\<close>

theorem edit_save_without_stock_check:
  assumes "i < length (items tx)"
  shows "map_sum id calls
           (and_then (updateEditItemQty i newQty (openEditModal tx st)) handleSaveEdit)
         = Inr (calls st @
             [OnUpdateTransaction
                (tx\<lparr>items := (items tx)[i := (items tx ! i)
                        \<lparr>quantityInput := newQty,
                         totalBaseQuantity :=
                           js_mul newQty (js_or (conversionRatio (items tx ! i)) (Fin 1))\<rparr>],
                    tx_notes := Some (or_empty (tx_notes tx)),
                    supplierName := Some (or_empty (supplierName tx)),
                    poNumber := Some (or_empty (poNumber tx)),
                    riNumber := Some (or_empty (riNumber tx)),
                    photos := Some (or_empty (photos tx))\<rparr>)])
       \<and> map_sum id isEditModalOpen
           (and_then (updateEditItemQty i newQty (openEditModal tx st)) handleSaveEdit)
         = Inr False"
  using assms
  by (simp add: and_then_def updateEditItemQty_def openEditModal_def handleSaveEdit_def Let_def)

text \<open>
  With 4 pieces on hand, the committed OUT line of 8 boxes is raised to 100 boxes
  (1200 pieces) and saved.
\<close>

theorem edit_save_without_stock_check_witness:
  "0 < length (items outTransaction)
   \<and> tx_type outTransaction = OUT
   \<and> map quantity (inventory afterCommit) = [Fin 4]
   \<and> map_sum id calls
       (and_then (updateEditItemQty 0 (Fin 100) (openEditModal outTransaction afterCommit))
          handleSaveEdit)
     = Inr [OnUpdateTransaction
              (outTransaction\<lparr>items :=
                  [\<lparr> itemId = ''item-1'', itemName = ''Bolt'', quantityInput = Fin 100,
                     selectedUnit = ''Box'', conversionRatio = Fin 12,
                     totalBaseQuantity = Fin 1200 \<rparr>],
                 tx_notes := Some [], supplierName := Some [], poNumber := Some [],
                 riNumber := Some [], photos := Some []\<rparr>)]"
proof -
  have l: "0 < length (items outTransaction)" by code_simp
  have c: "tx_type outTransaction = OUT" "map quantity (inventory afterCommit) = [Fin 4]"
    "calls afterCommit = []"
    by code_simp+
  have e: "outTransaction\<lparr>items := (items outTransaction)[0 := (items outTransaction ! 0)
                        \<lparr>quantityInput := Fin 100,
                         totalBaseQuantity :=
                           js_mul (Fin 100)
                             (js_or (conversionRatio (items outTransaction ! 0)) (Fin 1))\<rparr>],
                    tx_notes := Some (or_empty (tx_notes outTransaction)),
                    supplierName := Some (or_empty (supplierName outTransaction)),
                    poNumber := Some (or_empty (poNumber outTransaction)),
                    riNumber := Some (or_empty (riNumber outTransaction)),
                    photos := Some (or_empty (photos outTransaction))\<rparr>
        = outTransaction\<lparr>items :=
                  [\<lparr> itemId = ''item-1'', itemName = ''Bolt'', quantityInput = Fin 100,
                     selectedUnit = ''Box'', conversionRatio = Fin 12,
                     totalBaseQuantity = Fin 1200 \<rparr>],
                 tx_notes := Some [], supplierName := Some [], poNumber := Some [],
                 riNumber := Some [], photos := Some []\<rparr>"
    by code_simp
  show ?thesis
    using l c e edit_save_without_stock_check [OF l, of "Fin 100" afterCommit]
    by simp
qed

subsection \<open>Quantities the form accepts\<close>

text \<open>
  C5, as stated, does not hold for negative quantities: the guard of line 177 tests
  the quantity for truthiness only. Adding \<open>-5\<close> pieces to a draft (of type OUT, with
  100 pieces on hand) appends a line with \<open>quantityInput = -5\<close> and
  \<open>totalBaseQuantity = -5\<close>.
\<close>

theorem negative_quantity_counterexample:
  "js_le (Fin (- 5)) (Fin 0)
   \<and> map_sum id cartItems (addLine New scenarioItem ''Pcs'' (Some (Fin (- 5))) outDraft)
       = Inr [\<lparr> itemId = ''item-1'', itemName = ''Bolt'', quantityInput = Fin (- 5),
                selectedUnit = ''Pcs'', conversionRatio = Fin 1,
                totalBaseQuantity = Fin (- 5) \<rparr>]"
  by code_simp

text \<open>
  C5, amended: for every draft, \<open>addLine\<close> with a quantity that is zero or missing
  fails with \<open>InvalidQuantity\<close>, and both carts hold afterwards the lines they held
  before: no line is appended.
\<close>

theorem zero_quantity_rejected:
  "addLine t item u None st = Inl InvalidQuantity
   \<and> addLine t item u (Some (Fin 0)) st = Inl InvalidQuantity
   \<and> cartItems (afterAddLine t item u None st) = cartItems st
   \<and> editCartItems (afterAddLine t item u None st) = editCartItems st
   \<and> cartItems (afterAddLine t item u (Some (Fin 0)) st) = cartItems st
   \<and> editCartItems (afterAddLine t item u (Some (Fin 0)) st) = editCartItems st"
  by (simp add: afterAddLine_rejected)

subsection \<open>Submitting an empty draft\<close>

text \<open>
  C6: submitting a draft with zero lines fails with \<open>EmptyTransaction\<close>; the parent's
  callbacks are not invoked, so no transaction record is created, and the inventory
  stays as it was.
\<close>

theorem empty_cart_not_submitted:
  assumes "cartItems st = []"
  shows "handleSubmitTransaction newId now st = Inl EmptyTransaction
       \<and> calls (state_after st (handleSubmitTransaction newId now st)) = calls st
       \<and> inventory (state_after st (handleSubmitTransaction newId now st)) = inventory st"
  using assms by (simp add: handleSubmitTransaction_def state_after_def)

theorem empty_cart_not_submitted_witness:
  "cartItems outDraft = []
   \<and> handleSubmitTransaction ''tx-9'' ''2024-01-02T00:00:00.000Z'' outDraft = Inl EmptyTransaction
   \<and> calls (state_after outDraft
        (handleSubmitTransaction ''tx-9'' ''2024-01-02T00:00:00.000Z'' outDraft)) = []
   \<and> inventory (state_after outDraft
        (handleSubmitTransaction ''tx-9'' ''2024-01-02T00:00:00.000Z'' outDraft)) = [scenarioItem]"
proof -
  have e: "cartItems outDraft = []" by code_simp
  have c: "calls outDraft = []" "inventory outDraft = [scenarioItem]"
    by (simp_all add: outDraft_def inDraft_def setType_def initialState_def)
  show ?thesis
    using e c empty_cart_not_submitted [OF e, of "''tx-9''" "''2024-01-02T00:00:00.000Z''"]
    by (simp add: state_after_def)
qed

subsection \<open>Draft operations leave the catalog alone\<close>

text \<open>
  C8: removing the line at an index of a cart yields the lines before it followed by
  the lines after it, so every other line is kept, in its order. Neither removing a
  line nor adding one (whether it succeeds or fails) changes the inventory or
  invokes a callback of the parent: the draft has no effect on the catalog before it
  is submitted.
\<close>

theorem draft_operations_frame:
  "cartItems (removeCartItem i st) = take i (cartItems st) @ drop (Suc i) (cartItems st)
   \<and> editCartItems (removeEditCartItem i st)
       = take i (editCartItems st) @ drop (Suc i) (editCartItems st)
   \<and> inventory (removeCartItem i st) = inventory st
   \<and> calls (removeCartItem i st) = calls st
   \<and> inventory (removeEditCartItem i st) = inventory st
   \<and> calls (removeEditCartItem i st) = calls st
   \<and> inventory (afterAddLine t item u q st) = inventory st
   \<and> calls (afterAddLine t item u q st) = calls st"
  by (simp add: removeCartItem_def removeEditCartItem_def filterIndexNot_take_drop addLine_frame)

subsection \<open>The stock check of the edit cart\<close>

text \<open>
  C9: when a line is added to the edit cart of a transaction \<open>tx\<close>, the stock check is
  decided by the type of the new-transaction form: \<open>addLine Edit\<close> fails with
  \<open>InsufficientStock\<close> exactly when the form's type is OUT and the lines of \<open>tx\<close> for
  the item plus the new line exceed the item's quantity. The type of \<open>tx\<close> plays no
  part; while the form's type is IN the line is appended to the lines of \<open>tx\<close>
  without any check, also when \<open>tx\<close> is of type OUT.
\<close>

theorem edit_cart_check_follows_form_type:
  assumes "js_truthy q"
  shows "((addLine Edit item u (Some q) (openEditModal tx st) = Inl InsufficientStock)
           = (form_type st = OUT
              \<and> js_gt (js_add (alreadyInCart (items tx) (item_id item))
                          (js_mul q (resolveRatio item u)))
                   (quantity item)))
       \<and> (form_type st = IN \<longrightarrow>
            map_sum id editCartItems (addLine Edit item u (Some q) (openEditModal tx st))
              = Inr (items tx @ [newLine item u q]))"
  using assms
  by (simp add: addLine_cases openEditModal_simps targetCartItems_def)

text \<open>
  With 4 pieces on hand and the form's type IN, 50 boxes (600 pieces) are added to
  the edit cart of the committed OUT transaction.
\<close>

theorem edit_cart_check_follows_form_type_witness:
  "js_truthy (Fin 50) \<and> form_type afterCommit = IN \<and> tx_type outTransaction = OUT
   \<and> quantity soldItem = Fin 4
   \<and> map_sum id editCartItems
       (addLine Edit soldItem ''Box'' (Some (Fin 50)) (openEditModal outTransaction afterCommit))
     = Inr [\<lparr> itemId = ''item-1'', itemName = ''Bolt'', quantityInput = Fin 8,
               selectedUnit = ''Box'', conversionRatio = Fin 12, totalBaseQuantity = Fin 96 \<rparr>,
            \<lparr> itemId = ''item-1'', itemName = ''Bolt'', quantityInput = Fin 50,
               selectedUnit = ''Box'', conversionRatio = Fin 12, totalBaseQuantity = Fin 600 \<rparr>]"
proof -
  have n: "js_truthy (Fin 50)" by (simp add: js_truthy_def)
  have f: "form_type afterCommit = IN" "tx_type outTransaction = OUT"
    "quantity soldItem = Fin 4"
    by code_simp+
  have e: "items outTransaction @ [newLine soldItem ''Box'' (Fin 50)]
     = [\<lparr> itemId = ''item-1'', itemName = ''Bolt'', quantityInput = Fin 8,
               selectedUnit = ''Box'', conversionRatio = Fin 12, totalBaseQuantity = Fin 96 \<rparr>,
            \<lparr> itemId = ''item-1'', itemName = ''Bolt'', quantityInput = Fin 50,
               selectedUnit = ''Box'', conversionRatio = Fin 12, totalBaseQuantity = Fin 600 \<rparr>]"
    by code_simp
  show ?thesis
    using n f e
      edit_cart_check_follows_form_type [OF n, of soldItem "''Box''" outTransaction afterCommit]
    by simp
qed


end
